theory Spec2Isabelle
  imports Main "HOL-Library.Word" "HOL-Library.AList"
begin

section \<open>Errors and machine integers\<close>

text \<open>
  Go's \<open>error\<close> values. \<open>ErrorString\<close> is what \<open>errors.New\<close> and \<open>fmt.Errorf\<close> build (a
  message), \<open>WithMessage\<close> is \<open>errors.WithMessage(err, msg)\<close> of github.com/pkg/errors: the
  cause together with the message put in front of it. A function returning \<open>error\<close> returns
  \<open>error option\<close> here, \<open>None\<close> being \<open>nil\<close>.
\<close>

datatype error = ErrorString string | WithMessage error string

type_synonym int32 = "32 word"

section \<open>msp.New (package msp)\<close>

record MSP =
  MSP_mspID :: string
  rootCertificates :: "string list"
  adminCertificates :: "string list"

text \<open>\<open>func New(mspID, rootCertificates, adminCertificates) (*MSP, error)\<close>: the only
  statement is \<open>return &MSP{...}, nil\<close>.\<close>

definition MSP_New :: "string \<Rightarrow> string list \<Rightarrow> string list \<Rightarrow> error + MSP" where
  "MSP_New mspID rootCerts adminCerts =
     Inr \<lparr>MSP_mspID = mspID, rootCertificates = rootCerts, adminCertificates = adminCerts\<rparr>"

definition MSP_ID :: "MSP \<Rightarrow> string" where
  "MSP_ID m = MSP_mspID m"

definition RootCertificates :: "MSP \<Rightarrow> string list" where
  "RootCertificates m = rootCertificates m"

definition AdminCertificates :: "MSP \<Rightarrow> string list" where
  "AdminCertificates m = adminCertificates m"

section \<open>Library functions used by Peer.Port\<close>

text \<open>
  \<open>net/url\<close>: \<open>URL.Port()\<close> is the second component of \<open>splitHostPort(u.Host)\<close>: the text
  after the last colon of \<open>Host\<close> when the text from that colon on is a valid optional port
  (a colon followed by ASCII digits only, possibly none), and the empty string otherwise.
\<close>

definition isDigit :: "char \<Rightarrow> bool" where
  "isDigit c = (c \<in> set ''0123456789'')"

definition digitVal :: "char \<Rightarrow> int" where
  "digitVal c = int (of_char c) - 48"

definition validOptionalPort :: "string \<Rightarrow> bool" where
  "validOptionalPort port =
     (case port of [] \<Rightarrow> True | c # rest \<Rightarrow> c = CHR '':'' \<and> list_all isDigit rest)"

text \<open>\<open>strings.LastIndexByte(s, c)\<close>, with \<open>None\<close> for -1.\<close>

fun LastIndexByte :: "string \<Rightarrow> char \<Rightarrow> nat option" where
  "LastIndexByte [] c = None"
| "LastIndexByte (x # xs) c =
     (case LastIndexByte xs c of
        Some i \<Rightarrow> Some (Suc i)
      | None \<Rightarrow> if x = c then Some 0 else None)"

definition URL_Port :: "string \<Rightarrow> string" where
  "URL_Port host =
     (case LastIndexByte host (CHR '':'') of
        None \<Rightarrow> []
      | Some colon \<Rightarrow> if validOptionalPort (drop colon host) then drop (Suc colon) host else [])"

text \<open>
  \<open>strconv.Atoi\<close> on a 64-bit platform: an optional sign, then at least one decimal digit
  and nothing else; a syntax error gives the value 0, a value out of the range of \<open>int\<close>
  gives the nearest bound together with a range error.
\<close>

definition ErrSyntax :: error where
  "ErrSyntax = ErrorString ''invalid syntax''"

definition ErrRange :: error where
  "ErrRange = ErrorString ''value out of range''"

definition decimal :: "string \<Rightarrow> int" where
  "decimal ds = fold (\<lambda>c n. 10 * n + digitVal c) ds 0"

definition Atoi :: "string \<Rightarrow> int \<times> error option" where
  "Atoi s =
     (let (neg, ds) = (case s of
                         c # r \<Rightarrow> if c = CHR ''+'' then (False, r)
                                  else if c = CHR ''-'' then (True, r) else (False, s)
                       | [] \<Rightarrow> (False, s))
      in if ds = [] \<or> \<not> list_all isDigit ds then (0, Some ErrSyntax)
         else let un = decimal ds
              in if \<not> neg \<and> un \<ge> 2 ^ 63 then (2 ^ 63 - 1, Some ErrRange)
                 else if neg \<and> un > 2 ^ 63 then (- (2 ^ 63), Some ErrRange)
                 else (if neg then - un else un, None))"

section \<open>The peer (package peer)\<close>

record URL =
  Host :: string

record Identity =
  privateKey :: string
  certificate :: string
  ca :: "string option"

record Organization =
  orgName :: string
  admin :: Identity

type_synonym pid = nat

record Peer =
  organization :: Organization
  identity :: Identity
  mspID :: string
  directory :: string
  apiPort :: int32
  apiURL :: URL
  chaincodePort :: int32
  chaincodeURL :: URL
  operationsPort :: int32
  operationsURL :: URL
  command :: "pid option"

text \<open>\<open>func (p *Peer) Port() int32\<close>: the error of \<open>Atoi\<close> is dropped and the \<open>int\<close> is
  converted to \<open>int32\<close>, which keeps its low 32 bits.\<close>

definition Port :: "Peer \<Rightarrow> int32" where
  "Port p = (let (port, _) = Atoi (URL_Port (Host (apiURL p))) in word_of_int port)"

section \<open>The environment of a peer\<close>

text \<open>
  Everything outside the program is explicit state. The file system maps a path to a
  directory or to a file with its bytes; \<open>running\<close> is the set of live child processes;
  \<open>trace\<close> records, in order, every external effect that succeeded. Whether an external call
  fails is not decided by the program: each kind of call takes its outcome from a queue of
  the environment (\<open>io_faults\<close> for the file system, \<open>exec_faults\<close> for pipe creation and
  process creation, \<open>kill_faults\<close> for signals), \<open>None\<close> or an empty queue meaning that the
  call succeeds. \<open>homeDirectory\<close> is what \<open>util.GetHomeDirectory()\<close> returns, and
  \<open>yamlUnmarshal\<close>, \<open>yamlMarshal\<close> stand for \<open>yaml.Unmarshal\<close> into a
  \<open>map[interface{}]interface{}\<close> and for \<open>yaml.Marshal\<close>: all three are parameters of the
  model.
\<close>

datatype node = Dir | File string

datatype yaml = YNull | YBool bool | YInt int | YStr string | YSeq "yaml list"
  | YMap "(yaml \<times> yaml) list"

type_synonym ymap = "(yaml \<times> yaml) list"

datatype effect =
    EMkdirAll string
  | EWriteFile string string
  | EOpenFile string
  | ESpawn pid "string list" "string list"
  | EKill pid

record world =
  fs :: "string \<Rightarrow> node option"
  environ :: "(string \<times> string) list"
  homeDirectory :: "error + string"
  yamlUnmarshal :: "string \<Rightarrow> error + ymap"
  yamlMarshal :: "yaml \<Rightarrow> error + string"
  running :: "pid set"
  next_pid :: pid
  trace :: "effect list"
  io_faults :: "error option list"
  exec_faults :: "error option list"
  kill_faults :: "error option list"

definition popFault :: "error option list \<Rightarrow> error option \<times> error option list" where
  "popFault q = (case q of [] \<Rightarrow> (None, []) | f # r \<Rightarrow> (f, r))"

subsection \<open>Paths and the file system\<close>

text \<open>
  \<open>path.Join\<close> joins its non-empty elements with slashes and then cleans the result;
  the directories of a peer are taken to be clean already, so that cleaning changes
  nothing and is left out.
\<close>

fun joinSlash :: "string list \<Rightarrow> string" where
  "joinSlash [] = []"
| "joinSlash [x] = x"
| "joinSlash (x # y # r) = x @ CHR ''/'' # joinSlash (y # r)"

definition path_Join :: "string list \<Rightarrow> string" where
  "path_Join elems = joinSlash (filter (\<lambda>e. e \<noteq> []) elems)"

definition ancestors :: "string \<Rightarrow> string list" where
  "ancestors path = map (\<lambda>i. take i path) (filter (\<lambda>i. path ! i = CHR ''/'') [1..<length path])"

definition addDir :: "string \<Rightarrow> (string \<Rightarrow> node option) \<Rightarrow> (string \<Rightarrow> node option)" where
  "addDir d f = (if f d = None then f(d \<mapsto> Dir) else f)"

text \<open>\<open>os.MkdirAll(path, 0755)\<close>: the directory and every missing parent.\<close>

definition MkdirAll :: "string \<Rightarrow> world \<Rightarrow> error option \<times> world" where
  "MkdirAll path w =
     (case popFault (io_faults w) of
        (Some err, q) \<Rightarrow> (Some err, w\<lparr>io_faults := q\<rparr>)
      | (None, q) \<Rightarrow>
          (None, w\<lparr>io_faults := q,
                   fs := fold addDir (ancestors path @ [path]) (fs w),
                   trace := trace w @ [EMkdirAll path]\<rparr>))"

text \<open>\<open>ioutil.WriteFile(path, data, 0644)\<close>.\<close>

definition WriteFile :: "string \<Rightarrow> string \<Rightarrow> world \<Rightarrow> error option \<times> world" where
  "WriteFile path data w =
     (case popFault (io_faults w) of
        (Some err, q) \<Rightarrow> (Some err, w\<lparr>io_faults := q\<rparr>)
      | (None, q) \<Rightarrow>
          (None, w\<lparr>io_faults := q,
                   fs := (fs w)(path \<mapsto> File data),
                   trace := trace w @ [EWriteFile path data]\<rparr>))"

definition ErrNotExist :: error where
  "ErrNotExist = ErrorString ''no such file or directory''"

text \<open>\<open>ioutil.ReadFile(path)\<close>.\<close>

definition ReadFile :: "string \<Rightarrow> world \<Rightarrow> (error + string) \<times> world" where
  "ReadFile path w =
     (case popFault (io_faults w) of
        (Some err, q) \<Rightarrow> (Inl err, w\<lparr>io_faults := q\<rparr>)
      | (None, q) \<Rightarrow>
          (case fs w path of
             Some (File data) \<Rightarrow> (Inr data, w\<lparr>io_faults := q\<rparr>)
           | _ \<Rightarrow> (Inl ErrNotExist, w\<lparr>io_faults := q\<rparr>)))"

text \<open>\<open>os.OpenFile(path, os.O_CREATE|os.O_TRUNC|os.O_WRONLY, 0644)\<close>: the file exists
  and is empty afterwards.\<close>

definition OpenFile :: "string \<Rightarrow> world \<Rightarrow> error option \<times> world" where
  "OpenFile path w =
     (case popFault (io_faults w) of
        (Some err, q) \<Rightarrow> (Some err, w\<lparr>io_faults := q\<rparr>)
      | (None, q) \<Rightarrow>
          (None, w\<lparr>io_faults := q,
                   fs := (fs w)(path \<mapsto> File []),
                   trace := trace w @ [EOpenFile path]\<rparr>))"

definition LookupEnv :: "string \<Rightarrow> world \<Rightarrow> string option" where
  "LookupEnv key w = map_of (environ w) key"

text \<open>\<open>os.Environ()\<close>: the variables as \<open>key=value\<close> strings.\<close>

definition Environ :: "world \<Rightarrow> string list" where
  "Environ w = map (\<lambda>(k, v). k @ CHR ''='' # v) (environ w)"

subsection \<open>Processes\<close>

text \<open>\<open>cmd.StdoutPipe()\<close> and \<open>cmd.Start()\<close>. A started command is a new live process.\<close>

definition StdoutPipe :: "world \<Rightarrow> error option \<times> world" where
  "StdoutPipe w = (case popFault (exec_faults w) of (r, q) \<Rightarrow> (r, w\<lparr>exec_faults := q\<rparr>))"

definition Cmd_Start :: "string list \<Rightarrow> string list \<Rightarrow> world \<Rightarrow> (error + pid) \<times> world" where
  "Cmd_Start argv env w =
     (case popFault (exec_faults w) of
        (Some err, q) \<Rightarrow> (Inl err, w\<lparr>exec_faults := q\<rparr>)
      | (None, q) \<Rightarrow>
          (Inr (next_pid w),
           w\<lparr>exec_faults := q,
             running := insert (next_pid w) (running w),
             next_pid := Suc (next_pid w),
             trace := trace w @ [ESpawn (next_pid w) argv env]\<rparr>))"

definition ErrProcessDone :: error where
  "ErrProcessDone = ErrorString ''os: process already finished''"

text \<open>
  \<open>Process.Kill()\<close>: a process that has exited and has been waited for gives
  \<open>os.ErrProcessDone\<close>; otherwise the signal is sent, and when that succeeds the process is
  gone.
\<close>

definition Kill :: "pid \<Rightarrow> world \<Rightarrow> error option \<times> world" where
  "Kill pid w =
     (if pid \<notin> running w then (Some ErrProcessDone, w)
      else (case popFault (kill_faults w) of
              (Some err, q) \<Rightarrow> (Some err, w\<lparr>kill_faults := q\<rparr>)
            | (None, q) \<Rightarrow>
                (None, w\<lparr>kill_faults := q,
                         running := running w - {pid},
                         trace := trace w @ [EKill pid]\<rparr>)))"

section \<open>util.CreateMSPDirectory (package util)\<close>

text \<open>The constant \<open>config\<close> of package util: the node-OU descriptor, line by line.\<close>

definition util_config :: string where
  "util_config = concat (map (\<lambda>l. l @ [CHR 0x0A])
     [''NodeOUs:'',
      ''  Enable: true'',
      ''  ClientOUIdentifier:'',
      ''    Certificate: cacerts/ca.pem'',
      ''    OrganizationalUnitIdentifier: client'',
      ''  AdminOUIdentifier:'',
      ''    Certificate: cacerts/ca.pem'',
      ''    OrganizationalUnitIdentifier: admin'',
      ''  PeerOUIdentifier:'',
      ''    Certificate: cacerts/ca.pem'',
      ''    OrganizationalUnitIdentifier: peer'',
      ''  OrdererOUIdentifier:'',
      ''    Certificate: cacerts/ca.pem'',
      ''    OrganizationalUnitIdentifier: orderer''])"

text \<open>The loop \<open>for _, dir := range directories\<close> with its early return, shared by
  \<open>CreateMSPDirectory\<close> and \<open>createDirectories\<close>.\<close>

fun mkdirEach :: "string list \<Rightarrow> world \<Rightarrow> error option \<times> world" where
  "mkdirEach [] w = (None, w)"
| "mkdirEach (dir # dirs) w =
     (case MkdirAll dir w of
        (Some err, w') \<Rightarrow> (Some err, w')
      | (None, w') \<Rightarrow> mkdirEach dirs w')"

definition mspDirectories :: "string \<Rightarrow> string list" where
  "mspDirectories dir =
     [dir,
      path_Join [dir, ''admincerts''],
      path_Join [dir, ''cacerts''],
      path_Join [dir, ''keystore''],
      path_Join [dir, ''signcerts'']]"

definition CreateMSPDirectory :: "string \<Rightarrow> Identity \<Rightarrow> world \<Rightarrow> error option \<times> world" where
  "CreateMSPDirectory dir idt w =
     (case mkdirEach (mspDirectories dir) w of
        (Some err, w1) \<Rightarrow> (Some err, w1)
      | (None, w1) \<Rightarrow>
     (case WriteFile (path_Join [dir, ''config.yaml'']) util_config w1 of
        (Some err, w2) \<Rightarrow> (Some err, w2)
      | (None, w2) \<Rightarrow>
     (case WriteFile (path_Join [dir, ''keystore'', ''key.pem'']) (privateKey idt) w2 of
        (Some err, w3) \<Rightarrow> (Some err, w3)
      | (None, w3) \<Rightarrow>
     (case WriteFile (path_Join [dir, ''signcerts'', ''cert.pem'']) (certificate idt) w3 of
        (Some err, w4) \<Rightarrow> (Some err, w4)
      | (None, w4) \<Rightarrow>
     (case ca idt of
        Some caBytes \<Rightarrow> WriteFile (path_Join [dir, ''cacerts'', ''ca.pem'']) caBytes w4
      | None \<Rightarrow> (None, w4))))))"

section \<open>Peer: directories and configuration\<close>

definition peerDirectories :: "Peer \<Rightarrow> string list" where
  "peerDirectories p =
     [directory p,
      path_Join [directory p, ''config''],
      path_Join [directory p, ''data''],
      path_Join [directory p, ''logs''],
      path_Join [directory p, ''msp'']]"

definition createDirectories :: "Peer \<Rightarrow> world \<Rightarrow> error option \<times> world" where
  "createDirectories p w = mkdirEach (peerDirectories p) w"

text \<open>Formatting: \<open>%d\<close> of an \<open>int32\<close> and \<open>strings.ToLower\<close> on ASCII letters.\<close>

fun decString :: "nat \<Rightarrow> string" where
  "decString n =
     (if n < 10 then [char_of (48 + n)]
      else decString (n div 10) @ [char_of (48 + n mod 10)])"

declare decString.simps [simp del]

definition formatInt32 :: "int32 \<Rightarrow> string" where
  "formatInt32 x =
     (if sint x < 0 then CHR ''-'' # decString (nat (- sint x)) else decString (nat (sint x)))"

definition ToLower :: "string \<Rightarrow> string" where
  "ToLower s =
     map (\<lambda>c. if c \<in> set ''ABCDEFGHIJKLMNOPQRSTUVWXYZ''
               then char_of (of_char c + (32::nat)) else c) s"

text \<open>
  A Go map of type \<open>map[interface{}]interface{}\<close> is an association list: \<open>mapIndex\<close> is
  \<open>m[key]\<close> for a string key, \<open>mapAssign\<close> is \<open>m[key] = v\<close>, and \<open>asMap\<close> is the type
  assertion \<open>.(map[interface{}]interface{})\<close>, which fails on a missing key (a nil
  interface) and on any value that is not a map.
\<close>

definition mapIndex :: "ymap \<Rightarrow> string \<Rightarrow> yaml option" where
  "mapIndex m key = map_of m (YStr key)"

definition mapAssign :: "string \<Rightarrow> yaml \<Rightarrow> ymap \<Rightarrow> ymap" where
  "mapAssign key v m = AList.update (YStr key) v m"

definition asMap :: "yaml option \<Rightarrow> ymap option" where
  "asMap v = (case v of Some (YMap m) \<Rightarrow> Some m | _ \<Rightarrow> None)"

definition externalBuilders :: "string \<Rightarrow> yaml" where
  "externalBuilders homeDir = YSeq
     [YMap [(YStr ''path'', YStr (path_Join [homeDir, ''builders'', ''golang''])),
            (YStr ''name'', YStr ''golang''),
            (YStr ''propagateEnvironment'',
               YSeq [YStr ''GOCACHE'', YStr ''GOENV'', YStr ''GOROOT'', YStr ''HOME''])],
      YMap [(YStr ''path'', YStr (path_Join [homeDir, ''builders'', ''java''])),
            (YStr ''name'', YStr ''java''),
            (YStr ''propagateEnvironment'',
               YSeq [YStr ''HOME'', YStr ''JAVA_HOME'', YStr ''MAVEN_OPTS''])],
      YMap [(YStr ''path'', YStr (path_Join [homeDir, ''builders'', ''node''])),
            (YStr ''name'', YStr ''node''),
            (YStr ''propagateEnvironment'',
               YSeq [YStr ''HOME'', YStr ''npm_config_cache''])],
      YMap [(YStr ''path'', YStr (path_Join [homeDir, ''builders'', ''external''])),
            (YStr ''name'', YStr ''external-service-builder''),
            (YStr ''propagateEnvironment'',
               YSeq [YStr ''HOME''])]]"

text \<open>
  Lines 152 to 230 of \<open>createConfig\<close>: the checks and assignments on the decoded document.
  The Go code mutates the nested maps in place; here each patched section is stored back
  into its parent as soon as its assignments are done. \<open>home\<close> is the result of
  \<open>util.GetHomeDirectory()\<close>, looked at only after the chaincode section has been found.
\<close>

definition patchPeer :: "Peer \<Rightarrow> string \<Rightarrow> string \<Rightarrow> ymap \<Rightarrow> ymap" where
  "patchPeer p dataDirectory mspDirectory peer =
     mapAssign ''chaincodeListenAddress'' (YStr (''0.0.0.0:'' @ formatInt32 (chaincodePort p)))
    (mapAssign ''listenAddress'' (YStr (''0.0.0.0:'' @ formatInt32 (apiPort p)))
    (mapAssign ''address'' (YStr (''0.0.0.0:'' @ formatInt32 (apiPort p)))
    (mapAssign ''fileSystemPath'' (YStr dataDirectory)
    (mapAssign ''localMspId'' (YStr (mspID p))
    (mapAssign ''mspConfigPath'' (YStr mspDirectory)
    (mapAssign ''id'' (YStr (ToLower (orgName (organization p)) @ ''peer'')) peer))))))"

definition patchGossip :: "Peer \<Rightarrow> ymap \<Rightarrow> ymap" where
  "patchGossip p gossip =
     mapAssign ''externalEndpoint'' (YStr (Host (apiURL p)))
    (mapAssign ''endpoint'' (YStr (Host (apiURL p)))
    (mapAssign ''orgLeader'' (YBool True)
    (mapAssign ''useLeaderElection'' (YBool False)
    (mapAssign ''bootstrap'' (YStr (Host (apiURL p))) gossip))))"

definition patchConfig ::
    "Peer \<Rightarrow> string \<Rightarrow> string \<Rightarrow> error + string \<Rightarrow> ymap \<Rightarrow> error + ymap" where
  "patchConfig p dataDirectory mspDirectory home config =
     (case asMap (mapIndex config ''peer'') of
        None \<Rightarrow> Inl (ErrorString ''core.yaml missing peer section'')
      | Some peer0 \<Rightarrow>
     (let peer = patchPeer p dataDirectory mspDirectory peer0 in
      case asMap (mapIndex peer ''gossip'') of
        None \<Rightarrow> Inl (ErrorString ''core.yaml missing peer.gossip section'')
      | Some gossip \<Rightarrow>
     (let config1 = mapAssign ''peer''
            (YMap (mapAssign ''gossip'' (YMap (patchGossip p gossip)) peer)) config in
      case asMap (mapIndex config1 ''metrics'') of
        None \<Rightarrow> Inl (ErrorString ''core.yaml missing metrics section'')
      | Some metrics \<Rightarrow>
     (let config2 = mapAssign ''metrics''
            (YMap (mapAssign ''provider'' (YStr ''prometheus'') metrics)) config1 in
      case asMap (mapIndex config2 ''operations'') of
        None \<Rightarrow> Inl (ErrorString ''core.yaml missing operations section'')
      | Some operations \<Rightarrow>
     (let config3 = mapAssign ''operations''
            (YMap (mapAssign ''listenAddress''
                     (YStr (''0.0.0.0:'' @ formatInt32 (operationsPort p))) operations)) config2 in
      case asMap (mapIndex config3 ''vm'') of
        None \<Rightarrow> Inl (ErrorString ''core.yaml missing vm section'')
      | Some vm \<Rightarrow>
     (let config4 = mapAssign ''vm'' (YMap (mapAssign ''endpoint'' (YStr []) vm)) config3 in
      case asMap (mapIndex config4 ''chaincode'') of
        None \<Rightarrow> Inl (ErrorString ''core.yaml missing chaincode section'')
      | Some chaincode \<Rightarrow>
     (case home of
        Inl err \<Rightarrow> Inl err
      | Inr homeDir \<Rightarrow>
          Inr (mapAssign ''chaincode''
                 (YMap (mapAssign ''externalBuilders'' (externalBuilders homeDir) chaincode))
                 config4))))))))"

definition createConfig :: "Peer \<Rightarrow> string \<Rightarrow> string \<Rightarrow> world \<Rightarrow> error option \<times> world" where
  "createConfig p dataDirectory mspDirectory w =
     (case LookupEnv ''FABRIC_CFG_PATH'' w of
        None \<Rightarrow> (Some (ErrorString ''FABRIC_CFG_PATH not defined''), w)
      | Some fabricConfigPath \<Rightarrow>
     (case ReadFile (path_Join [fabricConfigPath, ''core.yaml'']) w of
        (Inl err, w1) \<Rightarrow> (Some err, w1)
      | (Inr configData, w1) \<Rightarrow>
     (case yamlUnmarshal w1 configData of
        Inl err \<Rightarrow> (Some err, w1)
      | Inr config \<Rightarrow>
     (case patchConfig p dataDirectory mspDirectory (homeDirectory w1) config of
        Inl err \<Rightarrow> (Some err, w1)
      | Inr config' \<Rightarrow>
     (case yamlMarshal w1 (YMap config') of
        Inl err \<Rightarrow> (Some err, w1)
      | Inr configData' \<Rightarrow>
          WriteFile (path_Join [directory p, ''config'', ''core.yaml'']) configData' w1)))))"

section \<open>Peer: start and stop\<close>

text \<open>
  One round of \<open>hasStarted\<close> observes the outcome of \<open>http.Get\<close> on the health endpoint
  (an error or a status code), of \<open>Connect\<close> and of \<open>ListChannels\<close>.
\<close>

record probe =
  httpGet :: "error + int"
  connectErr :: "error option"
  listChannelsErr :: "error option"

definition hasStarted :: "Peer \<Rightarrow> probe \<Rightarrow> bool" where
  "hasStarted p pr =
     (case httpGet pr of
        Inl err \<Rightarrow> False
      | Inr statusCode \<Rightarrow>
          if statusCode \<noteq> 200 then False
          else (case connectErr pr of
                  Some err \<Rightarrow> False
                | None \<Rightarrow> (case listChannelsErr pr of Some err \<Rightarrow> False | None \<Rightarrow> True)))"

definition Stop :: "Peer \<Rightarrow> world \<Rightarrow> error option \<times> Peer \<times> world" where
  "Stop p w =
     (case command p of
        Some pid \<Rightarrow>
          (case Kill pid w of
             (Some err, w') \<Rightarrow> (Some (WithMessage err ''failed to stop peer''), p, w')
           | (None, w') \<Rightarrow> (None, p\<lparr>command := None\<rparr>, w'))
      | None \<Rightarrow> (None, p, w))"

text \<open>
  What happens while \<open>Start\<close> waits is a schedule, a list of events in the order in which
  they take place. \<open>ProcExit r\<close>: the child exits and \<open>cmd.Wait()\<close> returns \<open>r\<close> in the
  monitor goroutine, which sends \<open>r\<close> on \<open>errchan\<close> (capacity one) only when it is not nil.
  The others are the cases of the \<open>select\<close>: \<open>SelTimeout\<close> (the timer of
  \<open>time.After(10 * time.Second)\<close> has fired and its case is taken), \<open>SelErrchan\<close> (a value
  is received from \<open>errchan\<close>), \<open>SelTick pr\<close> (a tick of \<open>time.Tick(250 * time.Millisecond)\<close>
  is received and \<open>hasStarted\<close> returns after observing \<open>pr\<close>) and \<open>SelTickBlocks\<close> (a tick
  is received and \<open>hasStarted\<close> does not return: \<open>http.Get\<close> with the default client, and the
  calls after it, have no deadline, and they run inside the loop, so \<open>Start\<close> never gets back
  to the \<open>select\<close>). When several cases are ready Go takes any of them, also a tick when
  the timer has fired, so the schedule decides. \<open>None\<close> is returned when \<open>Start\<close> does not
  return: the schedule ends with \<open>Start\<close> still waiting, or a probe blocks; and for a
  schedule that cannot happen (a receive from the empty \<open>errchan\<close>, a second exit of the
  same process).
\<close>

datatype event = ProcExit "error option" | SelTimeout | SelErrchan | SelTick probe
  | SelTickBlocks

fun waitLoop ::
    "pid \<Rightarrow> error option \<Rightarrow> event list \<Rightarrow> Peer \<Rightarrow> world \<Rightarrow> (error option \<times> Peer \<times> world) option" where
  "waitLoop pid errchan [] p w = None"
| "waitLoop pid errchan (ProcExit r # sched) p w =
     (if pid \<in> running w
      then waitLoop pid (case r of Some err \<Rightarrow> Some err | None \<Rightarrow> errchan) sched p
             (w\<lparr>running := running w - {pid}\<rparr>)
      else None)"
| "waitLoop pid errchan (SelTimeout # sched) p w =
     (case Stop p w of
        (_, p', w') \<Rightarrow>
          Some (Some (ErrorString ''timeout whilst waiting for peer to start''), p', w'))"
| "waitLoop pid errchan (SelErrchan # sched) p w =
     (case errchan of
        None \<Rightarrow> None
      | Some err \<Rightarrow>
          (case Stop p w of
             (_, p', w') \<Rightarrow> Some (Some (WithMessage err ''failed to start peer''), p', w')))"
| "waitLoop pid errchan (SelTick pr # sched) p w =
     (if hasStarted p pr then Some (None, p, w) else waitLoop pid errchan sched p w)"
| "waitLoop pid errchan (SelTickBlocks # sched) p w = None"

text \<open>
  Lines 261 to 297 of \<open>Start\<close>: everything up to and including \<open>cmd.Start()\<close>. The copy of
  the child's output into the log file runs beside the program and is not part of the
  model.
\<close>

definition launch :: "Peer \<Rightarrow> world \<Rightarrow> (error + pid) \<times> world" where
  "launch p w =
     (case createDirectories p w of
        (Some err, w1) \<Rightarrow> (Inl err, w1)
      | (None, w1) \<Rightarrow>
     (let configDirectory = path_Join [directory p, ''config''];
          dataDirectory = path_Join [directory p, ''data''];
          logsDirectory = path_Join [directory p, ''logs''];
          mspDirectory = path_Join [directory p, ''msp'']
      in
      case CreateMSPDirectory mspDirectory (identity p) w1 of
        (Some err, w2) \<Rightarrow> (Inl err, w2)
      | (None, w2) \<Rightarrow>
     (case createConfig p dataDirectory mspDirectory w2 of
        (Some err, w3) \<Rightarrow> (Inl err, w3)
      | (None, w3) \<Rightarrow>
     (case OpenFile (path_Join [logsDirectory, ''peer.log'']) w3 of
        (Some err, w4) \<Rightarrow> (Inl err, w4)
      | (None, w4) \<Rightarrow>
     (case StdoutPipe w4 of
        (Some err, w5) \<Rightarrow> (Inl err, w5)
      | (None, w5) \<Rightarrow>
          Cmd_Start [''peer'', ''node'', ''start'']
            (Environ w5 @ [''FABRIC_CFG_PATH='' @ configDirectory]) w5)))))"

text \<open>\<open>func (p *Peer) Start() error\<close>: the launch, then \<open>p.command = cmd\<close>, a fresh empty
  \<open>errchan\<close> and the loop.\<close>

definition Start :: "Peer \<Rightarrow> event list \<Rightarrow> world \<Rightarrow> (error option \<times> Peer \<times> world) option" where
  "Start p sched w =
     (case launch p w of
        (Inl err, w') \<Rightarrow> Some (Some err, p, w')
      | (Inr pid, w') \<Rightarrow> waitLoop pid None sched (p\<lparr>command := Some pid\<rparr>) w')"

section \<open>Vocabulary of the statements\<close>

text \<open>The prefix that \<open>path.Join\<close> puts in front of further elements.\<close>

definition dirPrefix :: "string \<Rightarrow> string" where
  "dirPrefix d = (if d = [] then [] else d @ ''/'')"

text \<open>The effects of a complete \<open>CreateMSPDirectory\<close>, in order.\<close>

definition mspWrites :: "string \<Rightarrow> Identity \<Rightarrow> effect list" where
  "mspWrites dir idt =
     map EMkdirAll (mspDirectories dir) @
     [EWriteFile (path_Join [dir, ''config.yaml'']) util_config,
      EWriteFile (path_Join [dir, ''keystore'', ''key.pem'']) (privateKey idt),
      EWriteFile (path_Join [dir, ''signcerts'', ''cert.pem'']) (certificate idt)] @
     (case ca idt of
        Some caBytes \<Rightarrow> [EWriteFile (path_Join [dir, ''cacerts'', ''ca.pem'']) caBytes]
      | None \<Rightarrow> [])"

text \<open>The effects of a \<open>Start\<close> up to the spawn, when the patched document has the bytes
  \<open>configData\<close>: the peer's directories, the MSP directory, the configuration document.\<close>

definition peerWrites :: "Peer \<Rightarrow> string \<Rightarrow> effect list" where
  "peerWrites p configData =
     map EMkdirAll (peerDirectories p) @
     mspWrites (path_Join [directory p, ''msp'']) (identity p) @
     [EWriteFile (path_Join [directory p, ''config'', ''core.yaml'']) configData]"

definition isSpawn :: "effect \<Rightarrow> bool" where
  "isSpawn e = (case e of ESpawn pid argv env \<Rightarrow> True | _ \<Rightarrow> False)"

text \<open>\<open>quiet w w'\<close>: from \<open>w\<close> to \<open>w'\<close> no process was created or ended, and the trace only
  grew, by effects other than spawns.\<close>

definition quiet :: "world \<Rightarrow> world \<Rightarrow> bool" where
  "quiet w w' =
     (running w' = running w \<and> next_pid w' = next_pid w \<and>
      take (length (trace w)) (trace w') = trace w \<and>
      list_all (\<lambda>e. \<not> isSpawn e) (drop (length (trace w)) (trace w')))"


text \<open>\<open>sameSetting w w'\<close>: the environment variables, the home directory, the YAML
  library and the pending outcomes of signals are the same in both.\<close>

definition sameSetting :: "world \<Rightarrow> world \<Rightarrow> bool" where
  "sameSetting w w' =
     (environ w' = environ w \<and> homeDirectory w' = homeDirectory w \<and>
      yamlUnmarshal w' = yamlUnmarshal w \<and> yamlMarshal w' = yamlMarshal w \<and>
      kill_faults w' = kill_faults w)"

text \<open>The required sections that a decoded template lacks, in the order in which
  \<open>createConfig\<close> looks for them. A section is there when its key holds a map.\<close>

definition hasSection :: "ymap \<Rightarrow> string \<Rightarrow> bool" where
  "hasSection m key = (asMap (mapIndex m key) \<noteq> None)"

definition missingSections :: "ymap \<Rightarrow> string list" where
  "missingSections config =
     (if hasSection config ''peer'' then [] else [''peer'']) @
     (case asMap (mapIndex config ''peer'') of
        Some peer \<Rightarrow> if hasSection peer ''gossip'' then [] else [''peer.gossip'']
      | None \<Rightarrow> []) @
     filter (\<lambda>key. \<not> hasSection config key) [''metrics'', ''operations'', ''vm'', ''chaincode'']"

text \<open>Reading a builder entry of the patched document: its name, and the set of the
  variable names in its \<open>propagateEnvironment\<close> list.\<close>

definition builderName :: "yaml \<Rightarrow> string option" where
  "builderName b =
     (case b of
        YMap m \<Rightarrow> (case mapIndex m ''name'' of Some (YStr n) \<Rightarrow> Some n | _ \<Rightarrow> None)
      | _ \<Rightarrow> None)"

definition builderEnvironment :: "yaml \<Rightarrow> string set" where
  "builderEnvironment b =
     (case b of
        YMap m \<Rightarrow>
          (case mapIndex m ''propagateEnvironment'' of
             Some (YSeq names) \<Rightarrow>
               set (concat (map (\<lambda>n. case n of YStr s \<Rightarrow> [s] | _ \<Rightarrow> []) names))
           | _ \<Rightarrow> {})
      | _ \<Rightarrow> {})"

text \<open>The builder entries of a patched document, each as its name with its set of
  variable names; and the four fixed allow-lists.\<close>

definition buildersOf :: "ymap \<Rightarrow> (string option \<times> string set) list option" where
  "buildersOf config =
     (case asMap (mapIndex config ''chaincode'') of
        Some chaincode \<Rightarrow>
          (case mapIndex chaincode ''externalBuilders'' of
             Some (YSeq bs) \<Rightarrow> Some (map (\<lambda>b. (builderName b, builderEnvironment b)) bs)
           | _ \<Rightarrow> None)
      | None \<Rightarrow> None)"

definition fixedAllowLists :: "(string option \<times> string set) list" where
  "fixedAllowLists =
     [(Some ''golang'', {''GOCACHE'', ''GOENV'', ''GOROOT'', ''HOME''}),
      (Some ''java'', {''HOME'', ''JAVA_HOME'', ''MAVEN_OPTS''}),
      (Some ''node'', {''HOME'', ''npm_config_cache''}),
      (Some ''external-service-builder'', {''HOME''})]"

section \<open>Concrete peers and environments\<close>

text \<open>A peer of organization Org1 whose API URL has the given host, and the same peer
  holding a process handle.\<close>

definition peerAt :: "string \<Rightarrow> Peer" where
  "peerAt h =
     \<lparr>organization = \<lparr>orgName = ''Org1'',
                       admin = \<lparr>privateKey = ''adminkey'', certificate = ''admincert'',
                                ca = Some ''cacert''\<rparr>\<rparr>,
      identity = \<lparr>privateKey = ''peerkey'', certificate = ''peercert'', ca = Some ''cacert''\<rparr>,
      mspID = ''Org1MSP'', directory = ''/tmp/org1peer'',
      apiPort = 7051, apiURL = \<lparr>Host = h\<rparr>,
      chaincodePort = 7052, chaincodeURL = \<lparr>Host = ''localhost:7052''\<rparr>,
      operationsPort = 9443, operationsURL = \<lparr>Host = ''localhost:9443''\<rparr>,
      command = None\<rparr>"

definition examplePeer :: Peer where
  "examplePeer = peerAt ''localhost:7051''"

definition exampleTemplate :: ymap where
  "exampleTemplate =
     [(YStr ''peer'', YMap [(YStr ''gossip'', YMap [])]),
      (YStr ''metrics'', YMap []),
      (YStr ''operations'', YMap []),
      (YStr ''vm'', YMap []),
      (YStr ''chaincode'', YMap [])]"

text \<open>An environment in which nothing fails: the template is at \<open>/cfg/core.yaml\<close>, and the
  YAML library is a stub that decodes every document to the given template and encodes
  every document to the same bytes.\<close>

definition worldWith :: "ymap \<Rightarrow> world" where
  "worldWith template =
     \<lparr>fs = [''/cfg/core.yaml'' \<mapsto> File ''template''],
      environ = [(''FABRIC_CFG_PATH'', ''/cfg'')],
      homeDirectory = Inr ''/home/fab'',
      yamlUnmarshal = (\<lambda>_. Inr template),
      yamlMarshal = (\<lambda>_. Inr ''patched''),
      running = {}, next_pid = 1, trace = [],
      io_faults = [], exec_faults = [], kill_faults = []\<rparr>"

definition exampleWorld :: world where
  "exampleWorld = worldWith exampleTemplate"

definition EPERM :: error where
  "EPERM = ErrorString ''operation not permitted''"

definition failingProbe :: probe where
  "failingProbe = \<lparr>httpGet = Inl (ErrorString ''connection refused''),
                    connectErr = None, listChannelsErr = None\<rparr>"

definition runningPeerWorld :: "error option list \<Rightarrow> world" where
  "runningPeerWorld q = exampleWorld\<lparr>running := {1}, next_pid := 2, kill_faults := q\<rparr>"

text \<open>The example template without its metrics section.\<close>

definition noMetricsTemplate :: ymap where
  "noMetricsTemplate =
     [(YStr ''peer'', YMap [(YStr ''gossip'', YMap [])]),
      (YStr ''operations'', YMap []),
      (YStr ''vm'', YMap []),
      (YStr ''chaincode'', YMap [])]"

definition okProbe :: probe where
  "okProbe = \<lparr>httpGet = Inr 200, connectErr = None, listChannelsErr = None\<rparr>"

text \<open>The example environment with the given pending outcomes of signals.\<close>

definition worldKill :: "error option list \<Rightarrow> world" where
  "worldKill q = exampleWorld\<lparr>kill_faults := q\<rparr>"

section \<open>The trust descriptor\<close>

text \<open>
  C9, as the code has it: \<open>msp.New\<close> validates nothing. For every identifier, the empty
  one included, and any two certificate lists it returns a descriptor and no error, and
  the accessors give back the identifier and the lists unchanged.
\<close>

theorem MSP_New_total:
  "\<exists>m. MSP_New ident roots admins = Inr m \<and> MSP_ID m = ident \<and>
       RootCertificates m = roots \<and> AdminCertificates m = admins"
  by (simp add: MSP_New_def MSP_ID_def RootCertificates_def AdminCertificates_def)

text \<open>The empty identifier is accepted: a descriptor is produced for it.\<close>

theorem MSP_New_empty_id_counterexample:
  "MSP_New [] [] [] = Inr \<lparr>MSP_mspID = [], rootCertificates = [], adminCertificates = []\<rparr>"
  by (simp add: MSP_New_def)

section \<open>The port of a peer\<close>

lemma LastIndexByte_None: "LastIndexByte s c = None \<longleftrightarrow> c \<notin> set s"
  by (induction s) (auto split: option.splits)

lemma LastIndexByte_last: "c \<notin> set ds \<Longrightarrow> LastIndexByte (h @ c # ds) c = Some (length h)"
  by (induction h) (auto simp: LastIndexByte_None [THEN iffD2] split: option.splits)

lemma URL_Port_no_colon: "CHR '':'' \<notin> set host \<Longrightarrow> URL_Port host = []"
  by (simp add: URL_Port_def LastIndexByte_None [THEN iffD2])

lemma URL_Port_colon:
  "CHR '':'' \<notin> set ds \<Longrightarrow>
   URL_Port (h @ CHR '':'' # ds) = (if list_all isDigit ds then ds else [])"
  by (simp add: URL_Port_def LastIndexByte_last validOptionalPort_def)

lemma digitVal_nonneg: "isDigit c \<Longrightarrow> 0 \<le> digitVal c"
  by (auto simp: isDigit_def digitVal_def)

lemma fold_decimal_nonneg:
  "list_all isDigit ds \<Longrightarrow> 0 \<le> n \<Longrightarrow> 0 \<le> fold (\<lambda>c n. 10 * n + digitVal c) ds n"
  by (induction ds arbitrary: n) (auto simp: digitVal_nonneg)

lemma decimal_nonneg: "list_all isDigit ds \<Longrightarrow> 0 \<le> decimal ds"
  by (simp add: decimal_def fold_decimal_nonneg)

lemma Atoi_empty: "Atoi [] = (0, Some ErrSyntax)"
  by (simp add: Atoi_def)

lemma isDigit_not_sign: "isDigit c \<Longrightarrow> c \<noteq> CHR ''+'' \<and> c \<noteq> CHR ''-''"
  by (auto simp: isDigit_def)

lemma sint_small:
  assumes "0 \<le> k" and "k < 2 ^ 31"
  shows "sint (word_of_int k :: 32 word) = k"
proof -
  have "sint (word_of_int k :: 32 word) = signed_take_bit (LENGTH(32) - 1) k"
    by (rule sint_sbintrunc')
  also have "\<dots> = signed_take_bit 31 k" by simp
  also have "\<dots> = k" using assms by (intro signed_take_bit_int_eq_self) auto
  finally show ?thesis .
qed

lemma Atoi_digits:
  assumes "ds \<noteq> []" and "list_all isDigit ds"
  shows "Atoi ds = (if decimal ds \<ge> 2 ^ 63 then (2 ^ 63 - 1, Some ErrRange)
                    else (decimal ds, None))"
proof -
  obtain c r where ds: "ds = c # r" using assms(1) by (cases ds) auto
  with assms(2) have "isDigit c" by simp
  then have "c \<noteq> CHR ''+''" "c \<noteq> CHR ''-''" using isDigit_not_sign by auto
  then show ?thesis using assms by (simp add: Atoi_def ds)
qed

text \<open>
  C10, as the code has it. A host without a colon, or whose text after the last colon is
  empty or not all digits, gives port 0. A host ending in a colon and digits gives the
  low 32 bits of the decimal value (the value being capped at \<open>2 ^ 63 - 1\<close> by \<open>Atoi\<close>
  first); this is the port itself whenever the value is below \<open>2 ^ 31\<close>.
\<close>

theorem Port_value:
  "(CHR '':'' \<notin> set (Host (apiURL p)) \<longrightarrow> Port p = 0) \<and>
   (Host (apiURL p) = h @ CHR '':'' # ds \<and> CHR '':'' \<notin> set ds \<longrightarrow>
      (if ds \<noteq> [] \<and> list_all isDigit ds
       then Port p = word_of_int (min (decimal ds) (2 ^ 63 - 1)) \<and>
            (decimal ds < 2 ^ 31 \<longrightarrow> sint (Port p) = decimal ds)
       else Port p = 0))"
proof (intro conjI impI)
  assume "CHR '':'' \<notin> set (Host (apiURL p))"
  then show "Port p = 0" by (simp add: Port_def URL_Port_no_colon Atoi_empty)
next
  assume a: "Host (apiURL p) = h @ CHR '':'' # ds \<and> CHR '':'' \<notin> set ds"
  show "if ds \<noteq> [] \<and> list_all isDigit ds
       then Port p = word_of_int (min (decimal ds) (2 ^ 63 - 1)) \<and>
            (decimal ds < 2 ^ 31 \<longrightarrow> sint (Port p) = decimal ds)
       else Port p = 0"
  proof (cases "ds \<noteq> [] \<and> list_all isDigit ds")
    case True
    then have P: "Port p = word_of_int (if decimal ds \<ge> 2 ^ 63 then 2 ^ 63 - 1 else decimal ds)"
      using a by (simp add: Port_def URL_Port_colon Atoi_digits)
    have m: "(if decimal ds \<ge> 2 ^ 63 then 2 ^ 63 - 1 else decimal ds) = min (decimal ds) (2 ^ 63 - 1)"
      by (simp add: min_def)
    have s: "sint (Port p) = decimal ds" if lt: "decimal ds < 2 ^ 31"
    proof -
      have nn: "0 \<le> decimal ds" using True decimal_nonneg by blast
      have "Port p = word_of_int (decimal ds)" using P lt by simp
      then show ?thesis using sint_small [OF nn lt] by simp
    qed
    show ?thesis using True P m s by simp
  next
    case False
    then have "URL_Port (Host (apiURL p)) = []"
      using a by (cases "ds = []") (simp_all add: URL_Port_colon)
    then have "Port p = 0" by (simp add: Port_def Atoi_empty)
    then show ?thesis using False by auto
  qed
qed

theorem Port_value_witness:
  "CHR '':'' \<notin> set (Host (apiURL (peerAt ''localhost''))) \<and>
   Port (peerAt ''localhost'') = 0 \<and>
   Host (apiURL (peerAt ''localhost:x1'')) = ''localhost'' @ CHR '':'' # ''x1'' \<and>
   Port (peerAt ''localhost:x1'') = 0 \<and>
   Host (apiURL (peerAt ''localhost:7051'')) = ''localhost'' @ CHR '':'' # ''7051'' \<and>
   decimal ''7051'' < 2 ^ 31 \<and>
   sint (Port (peerAt ''localhost:7051'')) = 7051"
  using Port_value [of "peerAt ''localhost''" "[]" "[]"]
    Port_value [of "peerAt ''localhost:x1''" "''localhost''" "''x1''"]
    Port_value [of "peerAt ''localhost:7051''" "''localhost''" "''7051''"]
  by (simp add: peerAt_def isDigit_def decimal_def digitVal_def)

text \<open>The URL \<open>http://localhost:4294967296\<close> has the numeric port 4294967296, which
  \<open>Atoi\<close> converts without error, and \<open>Port\<close> returns 0 for it.\<close>

theorem Port_counterexample:
  "URL_Port (Host (apiURL (peerAt ''localhost:4294967296''))) = ''4294967296'' \<and>
   Atoi ''4294967296'' = (4294967296, None) \<and>
   Port (peerAt ''localhost:4294967296'') = 0"
  by (simp add: peerAt_def Port_def URL_Port_def validOptionalPort_def isDigit_def
      Atoi_def decimal_def digitVal_def)

section \<open>Stopping a peer\<close>

lemma Stop_absent: "command p = None \<Longrightarrow> Stop p w = (None, p, w)"
  by (simp add: Stop_def)

lemma Stop_ok_clears: "Stop p w = (None, p', w') \<Longrightarrow> command p' = None"
  by (auto simp: Stop_def split: option.splits prod.splits)

text \<open>
  C8, as the code has it. \<open>Stop\<close> on a peer without a process handle returns nil and
  changes neither the peer nor the environment; and after a \<open>Stop\<close> that returned nil, from
  any peer, a second \<open>Stop\<close> returns nil and changes nothing.
\<close>

theorem Stop_idempotent:
  "(command p = None \<longrightarrow> Stop p w = (None, p, w)) \<and>
   (Stop p w = (None, p', w') \<longrightarrow> Stop p' w' = (None, p', w'))"
  using Stop_absent Stop_ok_clears by blast

theorem Stop_idempotent_witness:
  "command examplePeer = None \<and>
   Stop examplePeer exampleWorld = (None, examplePeer, exampleWorld) \<and>
   Stop (examplePeer\<lparr>command := Some 1\<rparr>) (runningPeerWorld []) =
     (None, examplePeer, (runningPeerWorld [])\<lparr>running := {}, trace := [EKill 1]\<rparr>) \<and>
   Stop examplePeer ((runningPeerWorld [])\<lparr>running := {}, trace := [EKill 1]\<rparr>) =
     (None, examplePeer, (runningPeerWorld [])\<lparr>running := {}, trace := [EKill 1]\<rparr>)"
proof -
  have a: "command examplePeer = None" by (simp add: examplePeer_def peerAt_def)
  have b: "Stop (examplePeer\<lparr>command := Some 1\<rparr>) (runningPeerWorld []) =
     (None, examplePeer, (runningPeerWorld [])\<lparr>running := {}, trace := [EKill 1]\<rparr>)"
    by (simp add: Stop_def Kill_def popFault_def runningPeerWorld_def exampleWorld_def
        worldWith_def examplePeer_def peerAt_def)
  show ?thesis
    using a b Stop_idempotent [of examplePeer exampleWorld examplePeer exampleWorld]
      Stop_idempotent [of "examplePeer\<lparr>command := Some 1\<rparr>" "runningPeerWorld []" examplePeer
        "(runningPeerWorld [])\<lparr>running := {}, trace := [EKill 1]\<rparr>"]
    by simp
qed

text \<open>Two calls in a row on a peer holding the handle of the live process 1, the kill of
  the first call failing: the first call returns the error and leaves peer and process as
  they were, and the second call is not a no-op: it ends the process, clears the handle
  and adds the kill to the trace.\<close>

theorem Stop_twice_counterexample:
  "command (examplePeer\<lparr>command := Some 1\<rparr>) = Some 1 \<and>
   running (runningPeerWorld [Some EPERM]) = {1} \<and>
   Stop (examplePeer\<lparr>command := Some 1\<rparr>) (runningPeerWorld [Some EPERM]) =
     (Some (WithMessage EPERM ''failed to stop peer''), examplePeer\<lparr>command := Some 1\<rparr>,
      runningPeerWorld []) \<and>
   fst (Stop (examplePeer\<lparr>command := Some 1\<rparr>) (runningPeerWorld [])) = None \<and>
   command (fst (snd (Stop (examplePeer\<lparr>command := Some 1\<rparr>) (runningPeerWorld [])))) = None \<and>
   running (snd (snd (Stop (examplePeer\<lparr>command := Some 1\<rparr>) (runningPeerWorld [])))) = {} \<and>
   trace (snd (snd (Stop (examplePeer\<lparr>command := Some 1\<rparr>) (runningPeerWorld [])))) =
     trace (runningPeerWorld []) @ [EKill 1]"
  by (simp add: Stop_def Kill_def popFault_def runningPeerWorld_def exampleWorld_def
      worldWith_def)

text \<open>
  C2, as the code has it. When the kill of the handle's process fails with \<open>err\<close>, \<open>Stop\<close>
  returns \<open>err\<close> wrapped in "failed to stop peer" and leaves the peer as it was, handle
  included; a later \<open>Stop\<close> sends the signal again, and when that signal succeeds it clears
  the handle.
\<close>

theorem Stop_kill_failure:
  assumes "command p = Some pid" and "Kill pid w = (Some err, w')"
  shows "Stop p w = (Some (WithMessage err ''failed to stop peer''), p, w') \<and>
         (\<forall>w''. Kill pid w' = (None, w'') \<longrightarrow> Stop p w' = (None, p\<lparr>command := None\<rparr>, w''))"
  using assms by (simp add: Stop_def)

theorem Stop_kill_failure_witness:
  "command (examplePeer\<lparr>command := Some 1\<rparr>) = Some 1 \<and>
   Kill 1 (runningPeerWorld [Some EPERM]) = (Some EPERM, runningPeerWorld []) \<and>
   Stop (examplePeer\<lparr>command := Some 1\<rparr>) (runningPeerWorld [Some EPERM]) =
     (Some (WithMessage EPERM ''failed to stop peer''), examplePeer\<lparr>command := Some 1\<rparr>,
      runningPeerWorld []) \<and>
   Stop (examplePeer\<lparr>command := Some 1\<rparr>) (runningPeerWorld []) =
     (None, examplePeer\<lparr>command := None\<rparr>,
      (runningPeerWorld [])\<lparr>running := {}, trace := [EKill 1]\<rparr>)"
proof -
  have a: "command (examplePeer\<lparr>command := Some 1\<rparr>) = Some 1" by simp
  have b: "Kill 1 (runningPeerWorld [Some EPERM]) = (Some EPERM, runningPeerWorld [])"
    by (simp add: Kill_def popFault_def runningPeerWorld_def)
  have c: "Kill 1 (runningPeerWorld []) =
      (None, (runningPeerWorld [])\<lparr>running := {}, trace := [EKill 1]\<rparr>)"
    by (simp add: Kill_def popFault_def runningPeerWorld_def exampleWorld_def worldWith_def)
  show ?thesis using a b c Stop_kill_failure [OF a b] by simp
qed

text \<open>A peer holding the handle of the live process 1, whose kill fails: \<open>Stop\<close> reports
  the error, the handle is still there and the process still runs; the same \<open>Stop\<close> with a
  signal that succeeds ends the process.\<close>

theorem Stop_kill_failure_counterexample:
  "fst (Stop (examplePeer\<lparr>command := Some 1\<rparr>) (runningPeerWorld [Some EPERM])) =
     Some (WithMessage EPERM ''failed to stop peer'') \<and>
   command (fst (snd (Stop (examplePeer\<lparr>command := Some 1\<rparr>)
     (runningPeerWorld [Some EPERM])))) = Some 1 \<and>
   running (snd (snd (Stop (examplePeer\<lparr>command := Some 1\<rparr>)
     (runningPeerWorld [Some EPERM])))) = {1} \<and>
   running (snd (snd (Stop (examplePeer\<lparr>command := Some 1\<rparr>) (runningPeerWorld [])))) = {}"
  by (simp add: Stop_def Kill_def popFault_def runningPeerWorld_def exampleWorld_def
      worldWith_def)

section \<open>The MSP directory\<close>

lemma popFault_clean: "set q \<subseteq> {None} \<Longrightarrow> popFault q = (None, tl q)"
  by (cases q) (auto simp: popFault_def)

lemma set_tl_clean: "set q \<subseteq> {None} \<Longrightarrow> set (tl q) \<subseteq> {None}"
  by (cases q) auto

lemma path_Join2: "a \<noteq> [] \<Longrightarrow> path_Join [d, a] = dirPrefix d @ a"
  by (simp add: path_Join_def dirPrefix_def)

lemma path_Join3: "a \<noteq> [] \<Longrightarrow> b \<noteq> [] \<Longrightarrow> path_Join [d, a, b] = dirPrefix d @ a @ CHR ''/'' # b"
  by (simp add: path_Join_def dirPrefix_def)

lemma addDir_keep: "f x = Some v \<Longrightarrow> addDir d f x = Some v"
  by (cases "x = d") (auto simp: addDir_def)

lemma fold_addDir_keep: "f x = Some v \<Longrightarrow> fold addDir ds f x = Some v"
proof (induction ds arbitrary: f)
  case Nil
  then show ?case by simp
next
  case (Cons d ds)
  have "addDir d f x = Some v" using Cons.prems by (rule addDir_keep)
  then show ?case using Cons.IH by simp
qed

lemma fold_addDir_other: "x \<notin> set ds \<Longrightarrow> fold addDir ds f x = f x"
  by (induction ds arbitrary: f) (auto simp: addDir_def)

lemma ancestors_shorter: "a \<in> set (ancestors p) \<Longrightarrow> length a < length p"
  by (auto simp: ancestors_def)

lemma MkdirAll_ok:
  "MkdirAll path w = (None, w') \<longleftrightarrow>
     fst (popFault (io_faults w)) = None \<and>
     w' = w\<lparr>io_faults := snd (popFault (io_faults w)),
            fs := fold addDir (ancestors path @ [path]) (fs w),
            trace := trace w @ [EMkdirAll path]\<rparr>"
  by (auto simp: MkdirAll_def split: prod.splits option.splits)

lemma WriteFile_ok:
  "WriteFile path data w = (None, w') \<longleftrightarrow>
     fst (popFault (io_faults w)) = None \<and>
     w' = w\<lparr>io_faults := snd (popFault (io_faults w)),
            fs := (fs w)(path \<mapsto> File data),
            trace := trace w @ [EWriteFile path data]\<rparr>"
  by (auto simp: WriteFile_def split: prod.splits option.splits)

lemma mkdirEach_ok:
  "mkdirEach ds w = (None, w') \<Longrightarrow>
     trace w' = trace w @ map EMkdirAll ds \<and>
     (\<forall>x v. fs w x = Some v \<longrightarrow> fs w' x = Some v) \<and>
     (\<forall>x. (\<forall>d\<in>set ds. length d < length x) \<longrightarrow> fs w' x = fs w x) \<and>
     running w' = running w \<and> next_pid w' = next_pid w \<and> environ w' = environ w \<and>
     homeDirectory w' = homeDirectory w \<and> yamlUnmarshal w' = yamlUnmarshal w \<and>
     yamlMarshal w' = yamlMarshal w \<and> exec_faults w' = exec_faults w \<and>
     kill_faults w' = kill_faults w"
proof (induction ds arbitrary: w)
  case Nil
  then show ?case by simp
next
  case (Cons d ds)
  from Cons.prems obtain w1 where m: "MkdirAll d w = (None, w1)" and r: "mkdirEach ds w1 = (None, w')"
    by (auto split: prod.splits option.splits)
  note ih = Cons.IH [OF r]
  have w1: "w1 = w\<lparr>io_faults := snd (popFault (io_faults w)),
            fs := fold addDir (ancestors d @ [d]) (fs w),
            trace := trace w @ [EMkdirAll d]\<rparr>"
    using m by (simp add: MkdirAll_ok)
  have keep: "\<forall>x v. fs w x = Some v \<longrightarrow> fs w1 x = Some v"
    using fold_addDir_keep [of "fs w" _ _ "ancestors d @ [d]"] by (simp add: w1)
  have other: "\<forall>x. length d < length x \<longrightarrow> fs w1 x = fs w x"
  proof (intro allI impI)
    fix x :: string assume "length d < length x"
    then have "x \<notin> set (ancestors d @ [d])"
      using ancestors_shorter [of x d] by auto
    then have "fold addDir (ancestors d @ [d]) (fs w) x = fs w x" by (rule fold_addDir_other)
    then show "fs w1 x = fs w x" by (simp add: w1)
  qed
  show ?case using ih keep other by (simp add: w1)
qed

lemma mkdirEach_clean:
  "set (io_faults w) \<subseteq> {None} \<Longrightarrow> \<exists>w'. mkdirEach ds w = (None, w') \<and> set (io_faults w') \<subseteq> {None}"
proof (induction ds arbitrary: w)
  case Nil
  then show ?case by simp
next
  case (Cons d ds)
  have "MkdirAll d w = (None, w\<lparr>io_faults := tl (io_faults w),
            fs := fold addDir (ancestors d @ [d]) (fs w),
            trace := trace w @ [EMkdirAll d]\<rparr>)"
    using Cons.prems by (simp add: MkdirAll_def popFault_clean)
  moreover have "set (io_faults (w\<lparr>io_faults := tl (io_faults w),
            fs := fold addDir (ancestors d @ [d]) (fs w),
            trace := trace w @ [EMkdirAll d]\<rparr>)) \<subseteq> {None}"
    using Cons.prems by (simp add: set_tl_clean)
  ultimately show ?case using Cons.IH by fastforce
qed

lemma WriteFile_clean:
  "set (io_faults w) \<subseteq> {None} \<Longrightarrow>
   \<exists>w'. WriteFile path data w = (None, w') \<and> set (io_faults w') \<subseteq> {None}"
  by (simp add: WriteFile_def popFault_clean set_tl_clean)

lemma CreateMSPDirectory_ok:
  assumes "CreateMSPDirectory dir idt w = (None, w')"
  shows "trace w' = trace w @ mspWrites dir idt"
    and "fs w' (path_Join [dir, ''config.yaml'']) = Some (File util_config)"
    and "fs w' (path_Join [dir, ''keystore'', ''key.pem'']) = Some (File (privateKey idt))"
    and "fs w' (path_Join [dir, ''signcerts'', ''cert.pem'']) = Some (File (certificate idt))"
    and "fs w' (path_Join [dir, ''cacerts'', ''ca.pem'']) =
           (case ca idt of Some caBytes \<Rightarrow> Some (File caBytes)
            | None \<Rightarrow> fs w (path_Join [dir, ''cacerts'', ''ca.pem'']))"
proof -
  from assms obtain w1 w2 w3 w4 where
    m: "mkdirEach (mspDirectories dir) w = (None, w1)" and
    c: "WriteFile (path_Join [dir, ''config.yaml'']) util_config w1 = (None, w2)" and
    k: "WriteFile (path_Join [dir, ''keystore'', ''key.pem'']) (privateKey idt) w2 = (None, w3)" and
    s: "WriteFile (path_Join [dir, ''signcerts'', ''cert.pem'']) (certificate idt) w3 = (None, w4)" and
    a: "(case ca idt of
        Some caBytes \<Rightarrow> WriteFile (path_Join [dir, ''cacerts'', ''ca.pem'']) caBytes w4
      | None \<Rightarrow> (None, w4)) = (None, w')"
    unfolding CreateMSPDirectory_def by (auto split: prod.splits option.splits)
  note M = mkdirEach_ok [OF m]
  have t4: "trace w4 = trace w @ map EMkdirAll (mspDirectories dir) @
     [EWriteFile (path_Join [dir, ''config.yaml'']) util_config,
      EWriteFile (path_Join [dir, ''keystore'', ''key.pem'']) (privateKey idt),
      EWriteFile (path_Join [dir, ''signcerts'', ''cert.pem'']) (certificate idt)]"
    using M c k s by (simp add: WriteFile_ok)
  have f4: "fs w4 = (fs w1)(path_Join [dir, ''config.yaml''] \<mapsto> File util_config,
      path_Join [dir, ''keystore'', ''key.pem''] \<mapsto> File (privateKey idt),
      path_Join [dir, ''signcerts'', ''cert.pem''] \<mapsto> File (certificate idt))"
    using c k s by (simp add: WriteFile_ok)
  have len: "\<forall>d\<in>set (mspDirectories dir). length d < length (path_Join [dir, ''cacerts'', ''ca.pem''])"
    by (simp add: mspDirectories_def path_Join2 path_Join3 dirPrefix_def)
  have ca1: "fs w1 (path_Join [dir, ''cacerts'', ''ca.pem'']) = fs w (path_Join [dir, ''cacerts'', ''ca.pem''])"
    using M len by blast
  show "trace w' = trace w @ mspWrites dir idt"
    using a t4 by (cases "ca idt") (auto simp: mspWrites_def WriteFile_ok)
  show "fs w' (path_Join [dir, ''config.yaml'']) = Some (File util_config)"
    using a f4 by (cases "ca idt") (auto simp: WriteFile_ok path_Join2 path_Join3)
  show "fs w' (path_Join [dir, ''keystore'', ''key.pem'']) = Some (File (privateKey idt))"
    using a f4 by (cases "ca idt") (auto simp: WriteFile_ok path_Join2 path_Join3)
  show "fs w' (path_Join [dir, ''signcerts'', ''cert.pem'']) = Some (File (certificate idt))"
    using a f4 by (cases "ca idt") (auto simp: WriteFile_ok path_Join2 path_Join3)
  show "fs w' (path_Join [dir, ''cacerts'', ''ca.pem'']) =
           (case ca idt of Some caBytes \<Rightarrow> Some (File caBytes)
            | None \<Rightarrow> fs w (path_Join [dir, ''cacerts'', ''ca.pem'']))"
    using a f4 ca1 by (cases "ca idt") (auto simp: WriteFile_ok path_Join2 path_Join3)
qed

lemma CreateMSPDirectory_clean:
  assumes "set (io_faults w) \<subseteq> {None}"
  shows "\<exists>w'. CreateMSPDirectory dir idt w = (None, w') \<and> set (io_faults w') \<subseteq> {None}"
proof -
  obtain w1 where 1: "mkdirEach (mspDirectories dir) w = (None, w1)" "set (io_faults w1) \<subseteq> {None}"
    using mkdirEach_clean [OF assms] by blast
  obtain w2 where 2: "WriteFile (path_Join [dir, ''config.yaml'']) util_config w1 = (None, w2)"
      "set (io_faults w2) \<subseteq> {None}"
    using WriteFile_clean [OF 1(2)] by blast
  obtain w3 where 3: "WriteFile (path_Join [dir, ''keystore'', ''key.pem'']) (privateKey idt) w2 = (None, w3)"
      "set (io_faults w3) \<subseteq> {None}"
    using WriteFile_clean [OF 2(2)] by blast
  obtain w4 where 4: "WriteFile (path_Join [dir, ''signcerts'', ''cert.pem'']) (certificate idt) w3 = (None, w4)"
      "set (io_faults w4) \<subseteq> {None}"
    using WriteFile_clean [OF 3(2)] by blast
  show ?thesis
  proof (cases "ca idt")
    case None
    then show ?thesis using 1 2 3 4 by (simp add: CreateMSPDirectory_def)
  next
    case (Some caBytes)
    obtain w5 where 5: "WriteFile (path_Join [dir, ''cacerts'', ''ca.pem'']) caBytes w4 = (None, w5)"
      "set (io_faults w5) \<subseteq> {None}"
      using WriteFile_clean [OF 4(2)] by blast
    then show ?thesis using 1 2 3 4 Some by (simp add: CreateMSPDirectory_def)
  qed
qed

text \<open>
  C6. A \<open>CreateMSPDirectory\<close> that returns nil has made, in this order, the directory and its
  four subdirectories admincerts, cacerts, keystore and signcerts, and has written the
  descriptor \<open>config.yaml\<close>, the private key and the certificate, and after them the CA
  certificate exactly when the identity has a CA; afterwards the three files hold the
  constant descriptor and the identity's own key and certificate bytes, and the CA file
  holds the CA's bytes when there is a CA and is what it was before when there is none.
  When no file-system call fails, \<open>CreateMSPDirectory\<close> does return nil.
\<close>

theorem CreateMSPDirectory_layout:
  "(CreateMSPDirectory dir idt w = (None, w') \<longrightarrow>
      trace w' = trace w @
        [EMkdirAll dir,
         EMkdirAll (path_Join [dir, ''admincerts'']),
         EMkdirAll (path_Join [dir, ''cacerts'']),
         EMkdirAll (path_Join [dir, ''keystore'']),
         EMkdirAll (path_Join [dir, ''signcerts'']),
         EWriteFile (path_Join [dir, ''config.yaml'']) util_config,
         EWriteFile (path_Join [dir, ''keystore'', ''key.pem'']) (privateKey idt),
         EWriteFile (path_Join [dir, ''signcerts'', ''cert.pem'']) (certificate idt)] @
        (case ca idt of
           Some caBytes \<Rightarrow> [EWriteFile (path_Join [dir, ''cacerts'', ''ca.pem'']) caBytes]
         | None \<Rightarrow> []) \<and>
      fs w' (path_Join [dir, ''config.yaml'']) = Some (File util_config) \<and>
      fs w' (path_Join [dir, ''keystore'', ''key.pem'']) = Some (File (privateKey idt)) \<and>
      fs w' (path_Join [dir, ''signcerts'', ''cert.pem'']) = Some (File (certificate idt)) \<and>
      fs w' (path_Join [dir, ''cacerts'', ''ca.pem'']) =
        (case ca idt of
           Some caBytes \<Rightarrow> Some (File caBytes)
         | None \<Rightarrow> fs w (path_Join [dir, ''cacerts'', ''ca.pem'']))) \<and>
   (set (io_faults w) \<subseteq> {None} \<longrightarrow> (\<exists>w''. CreateMSPDirectory dir idt w = (None, w'')))"
proof (intro conjI impI)
  assume ok: "CreateMSPDirectory dir idt w = (None, w')"
  show "trace w' = trace w @
        [EMkdirAll dir,
         EMkdirAll (path_Join [dir, ''admincerts'']),
         EMkdirAll (path_Join [dir, ''cacerts'']),
         EMkdirAll (path_Join [dir, ''keystore'']),
         EMkdirAll (path_Join [dir, ''signcerts'']),
         EWriteFile (path_Join [dir, ''config.yaml'']) util_config,
         EWriteFile (path_Join [dir, ''keystore'', ''key.pem'']) (privateKey idt),
         EWriteFile (path_Join [dir, ''signcerts'', ''cert.pem'']) (certificate idt)] @
        (case ca idt of
           Some caBytes \<Rightarrow> [EWriteFile (path_Join [dir, ''cacerts'', ''ca.pem'']) caBytes]
         | None \<Rightarrow> [])"
    using CreateMSPDirectory_ok(1) [OF ok] by (simp add: mspWrites_def mspDirectories_def)
  show "fs w' (path_Join [dir, ''config.yaml'']) = Some (File util_config)"
    by (rule CreateMSPDirectory_ok(2) [OF ok])
  show "fs w' (path_Join [dir, ''keystore'', ''key.pem'']) = Some (File (privateKey idt))"
    by (rule CreateMSPDirectory_ok(3) [OF ok])
  show "fs w' (path_Join [dir, ''signcerts'', ''cert.pem'']) = Some (File (certificate idt))"
    by (rule CreateMSPDirectory_ok(4) [OF ok])
  show "fs w' (path_Join [dir, ''cacerts'', ''ca.pem'']) =
        (case ca idt of
           Some caBytes \<Rightarrow> Some (File caBytes)
         | None \<Rightarrow> fs w (path_Join [dir, ''cacerts'', ''ca.pem'']))"
    by (rule CreateMSPDirectory_ok(5) [OF ok])
next
  assume "set (io_faults w) \<subseteq> {None}"
  then show "\<exists>w''. CreateMSPDirectory dir idt w = (None, w'')"
    using CreateMSPDirectory_clean by blast
qed

theorem CreateMSPDirectory_layout_witness:
  "set (io_faults exampleWorld) \<subseteq> {None} \<and>
   (\<exists>w'. CreateMSPDirectory ''/tmp/org1peer/msp'' (identity examplePeer) exampleWorld = (None, w') \<and>
      trace w' =
        [EMkdirAll ''/tmp/org1peer/msp'',
         EMkdirAll ''/tmp/org1peer/msp/admincerts'',
         EMkdirAll ''/tmp/org1peer/msp/cacerts'',
         EMkdirAll ''/tmp/org1peer/msp/keystore'',
         EMkdirAll ''/tmp/org1peer/msp/signcerts'',
         EWriteFile ''/tmp/org1peer/msp/config.yaml'' util_config,
         EWriteFile ''/tmp/org1peer/msp/keystore/key.pem'' ''peerkey'',
         EWriteFile ''/tmp/org1peer/msp/signcerts/cert.pem'' ''peercert'',
         EWriteFile ''/tmp/org1peer/msp/cacerts/ca.pem'' ''cacert''] \<and>
      fs w' ''/tmp/org1peer/msp/keystore/key.pem'' = Some (File ''peerkey'') \<and>
      fs w' ''/tmp/org1peer/msp/signcerts/cert.pem'' = Some (File ''peercert'') \<and>
      fs w' ''/tmp/org1peer/msp/cacerts/ca.pem'' = Some (File ''cacert''))"
proof -
  have clean: "set (io_faults exampleWorld) \<subseteq> {None}"
    by (simp add: exampleWorld_def worldWith_def)
  have t0: "trace exampleWorld = []"
    by (simp add: exampleWorld_def worldWith_def)
  have idt: "privateKey (identity examplePeer) = ''peerkey''"
    "certificate (identity examplePeer) = ''peercert''"
    "ca (identity examplePeer) = Some ''cacert''"
    by (simp_all add: examplePeer_def peerAt_def)
  have "\<exists>w'. CreateMSPDirectory ''/tmp/org1peer/msp'' (identity examplePeer) exampleWorld = (None, w')"
    by (rule CreateMSPDirectory_layout [of "''/tmp/org1peer/msp''" "identity examplePeer"
          exampleWorld undefined, THEN conjunct2, THEN mp, OF clean])
  then obtain w' where
    ok: "CreateMSPDirectory ''/tmp/org1peer/msp'' (identity examplePeer) exampleWorld = (None, w')"
    ..
  note L = CreateMSPDirectory_layout [of "''/tmp/org1peer/msp''" "identity examplePeer"
      exampleWorld w', THEN conjunct1, THEN mp, OF ok]
  have tr: "trace w' =
        [EMkdirAll ''/tmp/org1peer/msp'',
         EMkdirAll ''/tmp/org1peer/msp/admincerts'',
         EMkdirAll ''/tmp/org1peer/msp/cacerts'',
         EMkdirAll ''/tmp/org1peer/msp/keystore'',
         EMkdirAll ''/tmp/org1peer/msp/signcerts'',
         EWriteFile ''/tmp/org1peer/msp/config.yaml'' util_config,
         EWriteFile ''/tmp/org1peer/msp/keystore/key.pem'' ''peerkey'',
         EWriteFile ''/tmp/org1peer/msp/signcerts/cert.pem'' ''peercert'',
         EWriteFile ''/tmp/org1peer/msp/cacerts/ca.pem'' ''cacert'']"
    using L [THEN conjunct1] by (simp add: t0 idt path_Join_def)
  have k: "fs w' ''/tmp/org1peer/msp/keystore/key.pem'' = Some (File ''peerkey'')"
    using L [THEN conjunct2, THEN conjunct2, THEN conjunct1] by (simp add: idt path_Join_def)
  have c: "fs w' ''/tmp/org1peer/msp/signcerts/cert.pem'' = Some (File ''peercert'')"
    using L [THEN conjunct2, THEN conjunct2, THEN conjunct2, THEN conjunct1]
    by (simp add: idt path_Join_def)
  have a: "fs w' ''/tmp/org1peer/msp/cacerts/ca.pem'' = Some (File ''cacert'')"
    using L [THEN conjunct2, THEN conjunct2, THEN conjunct2, THEN conjunct2]
    by (simp add: idt path_Join_def)
  from ok tr k c a have "\<exists>w'.
      CreateMSPDirectory ''/tmp/org1peer/msp'' (identity examplePeer) exampleWorld = (None, w') \<and>
      trace w' =
        [EMkdirAll ''/tmp/org1peer/msp'',
         EMkdirAll ''/tmp/org1peer/msp/admincerts'',
         EMkdirAll ''/tmp/org1peer/msp/cacerts'',
         EMkdirAll ''/tmp/org1peer/msp/keystore'',
         EMkdirAll ''/tmp/org1peer/msp/signcerts'',
         EWriteFile ''/tmp/org1peer/msp/config.yaml'' util_config,
         EWriteFile ''/tmp/org1peer/msp/keystore/key.pem'' ''peerkey'',
         EWriteFile ''/tmp/org1peer/msp/signcerts/cert.pem'' ''peercert'',
         EWriteFile ''/tmp/org1peer/msp/cacerts/ca.pem'' ''cacert''] \<and>
      fs w' ''/tmp/org1peer/msp/keystore/key.pem'' = Some (File ''peerkey'') \<and>
      fs w' ''/tmp/org1peer/msp/signcerts/cert.pem'' = Some (File ''peercert'') \<and>
      fs w' ''/tmp/org1peer/msp/cacerts/ca.pem'' = Some (File ''cacert'')"
    by (intro exI [of _ w'] conjI)
  with clean show ?thesis by (rule conjI)
qed


section \<open>The patched configuration document\<close>

lemma mapIndex_mapAssign:
  "mapIndex (mapAssign k v m) k' = (if k' = k then Some v else mapIndex m k')"
  by (simp add: mapIndex_def mapAssign_def update_conv')

lemma asMap_Some: "asMap (Some (YMap m)) = Some m"
  by (simp add: asMap_def)

lemma mapIndex_patchPeer_gossip:
  "mapIndex (patchPeer p dd md peer) ''gossip'' = mapIndex peer ''gossip''"
  by (simp add: patchPeer_def mapIndex_mapAssign)

lemmas patch_simps = patchConfig_def Let_def mapIndex_mapAssign mapIndex_patchPeer_gossip asMap_Some

lemma patchConfig_no_peer:
  "asMap (mapIndex config ''peer'') = None \<Longrightarrow>
   patchConfig p dd md home config = Inl (ErrorString ''core.yaml missing peer section'')"
  by (simp add: patch_simps)

lemma patchConfig_no_gossip:
  "asMap (mapIndex config ''peer'') = Some peer \<Longrightarrow> asMap (mapIndex peer ''gossip'') = None \<Longrightarrow>
   patchConfig p dd md home config = Inl (ErrorString ''core.yaml missing peer.gossip section'')"
  by (simp add: patch_simps)

lemma patchConfig_no_metrics:
  "asMap (mapIndex config ''peer'') = Some peer \<Longrightarrow> asMap (mapIndex peer ''gossip'') = Some gossip \<Longrightarrow>
   asMap (mapIndex config ''metrics'') = None \<Longrightarrow>
   patchConfig p dd md home config = Inl (ErrorString ''core.yaml missing metrics section'')"
  by (simp add: patch_simps)

lemma patchConfig_no_operations:
  "asMap (mapIndex config ''peer'') = Some peer \<Longrightarrow> asMap (mapIndex peer ''gossip'') = Some gossip \<Longrightarrow>
   asMap (mapIndex config ''metrics'') = Some metrics \<Longrightarrow>
   asMap (mapIndex config ''operations'') = None \<Longrightarrow>
   patchConfig p dd md home config = Inl (ErrorString ''core.yaml missing operations section'')"
  by (simp add: patch_simps)

lemma patchConfig_no_vm:
  "asMap (mapIndex config ''peer'') = Some peer \<Longrightarrow> asMap (mapIndex peer ''gossip'') = Some gossip \<Longrightarrow>
   asMap (mapIndex config ''metrics'') = Some metrics \<Longrightarrow>
   asMap (mapIndex config ''operations'') = Some operations \<Longrightarrow>
   asMap (mapIndex config ''vm'') = None \<Longrightarrow>
   patchConfig p dd md home config = Inl (ErrorString ''core.yaml missing vm section'')"
  by (simp add: patch_simps)

lemma patchConfig_no_chaincode:
  "asMap (mapIndex config ''peer'') = Some peer \<Longrightarrow> asMap (mapIndex peer ''gossip'') = Some gossip \<Longrightarrow>
   asMap (mapIndex config ''metrics'') = Some metrics \<Longrightarrow>
   asMap (mapIndex config ''operations'') = Some operations \<Longrightarrow>
   asMap (mapIndex config ''vm'') = Some vm \<Longrightarrow>
   asMap (mapIndex config ''chaincode'') = None \<Longrightarrow>
   patchConfig p dd md home config = Inl (ErrorString ''core.yaml missing chaincode section'')"
  by (simp add: patch_simps)

lemma patchConfig_all:
  "asMap (mapIndex config ''peer'') = Some peer \<Longrightarrow> asMap (mapIndex peer ''gossip'') = Some gossip \<Longrightarrow>
   asMap (mapIndex config ''metrics'') = Some metrics \<Longrightarrow>
   asMap (mapIndex config ''operations'') = Some operations \<Longrightarrow>
   asMap (mapIndex config ''vm'') = Some vm \<Longrightarrow>
   asMap (mapIndex config ''chaincode'') = Some chaincode \<Longrightarrow>
   \<exists>rest. patchConfig p dd md home config =
     (case home of Inl err \<Rightarrow> Inl err
      | Inr homeDir \<Rightarrow> Inr (mapAssign ''chaincode''
           (YMap (mapAssign ''externalBuilders'' (externalBuilders homeDir) chaincode)) rest))"
  by (rule exI [where x = "mapAssign ''vm'' (YMap (mapAssign ''endpoint'' (YStr []) vm))
      (mapAssign ''operations'' (YMap (mapAssign ''listenAddress''
          (YStr (''0.0.0.0:'' @ formatInt32 (operationsPort p))) operations))
      (mapAssign ''metrics'' (YMap (mapAssign ''provider'' (YStr ''prometheus'') metrics))
      (mapAssign ''peer'' (YMap (mapAssign ''gossip'' (YMap (patchGossip p gossip))
          (patchPeer p dd md peer))) config)))"], cases home)
    (simp_all add: patch_simps)

lemma patchConfig_missing:
  assumes "missingSections config = s # rest"
  shows "patchConfig p dd md home config =
           Inl (ErrorString (''core.yaml missing '' @ s @ '' section''))"
proof (cases "asMap (mapIndex config ''peer'')")
  case None
  then have "s = ''peer''" using assms by (simp add: missingSections_def hasSection_def)
  then show ?thesis using patchConfig_no_peer [OF None] by simp
next
  case peer: (Some peer)
  show ?thesis
  proof (cases "asMap (mapIndex peer ''gossip'')")
    case None
    then have "s = ''peer.gossip''"
      using assms peer by (simp add: missingSections_def hasSection_def)
    then show ?thesis using patchConfig_no_gossip [OF peer None] by simp
  next
    case gossip: (Some gossip)
    have ms: "filter (\<lambda>key. \<not> hasSection config key)
        [''metrics'', ''operations'', ''vm'', ''chaincode''] = s # rest"
      using assms peer gossip by (simp add: missingSections_def hasSection_def)
    show ?thesis
    proof (cases "asMap (mapIndex config ''metrics'')")
      case None
      then have "s = ''metrics''" using ms by (simp add: hasSection_def)
      then show ?thesis using patchConfig_no_metrics [OF peer gossip None] by simp
    next
      case metrics: (Some metrics)
      show ?thesis
      proof (cases "asMap (mapIndex config ''operations'')")
        case None
        then have "s = ''operations''" using ms metrics by (simp add: hasSection_def)
        then show ?thesis using patchConfig_no_operations [OF peer gossip metrics None] by simp
      next
        case operations: (Some operations)
        show ?thesis
        proof (cases "asMap (mapIndex config ''vm'')")
          case None
          then have "s = ''vm''" using ms metrics operations by (simp add: hasSection_def)
          then show ?thesis using patchConfig_no_vm [OF peer gossip metrics operations None] by simp
        next
          case vm: (Some vm)
          show ?thesis
          proof (cases "asMap (mapIndex config ''chaincode'')")
            case None
            then have "s = ''chaincode''"
              using ms metrics operations vm by (simp add: hasSection_def)
            then show ?thesis
              using patchConfig_no_chaincode [OF peer gossip metrics operations vm None] by simp
          next
            case (Some chaincode)
            then have False using ms metrics operations vm by (simp add: hasSection_def)
            then show ?thesis ..
          qed
        qed
      qed
    qed
  qed
qed

lemma patchConfig_present:
  assumes "missingSections config = []"
  shows "\<exists>chaincode rest. patchConfig p dd md home config =
     (case home of Inl err \<Rightarrow> Inl err
      | Inr homeDir \<Rightarrow> Inr (mapAssign ''chaincode''
           (YMap (mapAssign ''externalBuilders'' (externalBuilders homeDir) chaincode)) rest))"
proof -
  have hp: "hasSection config ''peer''" using assms
    by (simp add: missingSections_def split: if_splits)
  then obtain peer where peer: "asMap (mapIndex config ''peer'') = Some peer"
    by (auto simp: hasSection_def)
  have "hasSection peer ''gossip''" using assms peer
    by (simp add: missingSections_def split: if_splits)
  then obtain gossip where gossip: "asMap (mapIndex peer ''gossip'') = Some gossip"
    by (auto simp: hasSection_def)
  have f: "filter (\<lambda>key. \<not> hasSection config key)
        [''metrics'', ''operations'', ''vm'', ''chaincode''] = []"
    using assms by (simp add: missingSections_def)
  have "hasSection config ''metrics''" "hasSection config ''operations''"
    "hasSection config ''vm''" "hasSection config ''chaincode''"
    using f unfolding filter_empty_conv by auto
  then obtain metrics operations vm chaincode where
    "asMap (mapIndex config ''metrics'') = Some metrics"
    "asMap (mapIndex config ''operations'') = Some operations"
    "asMap (mapIndex config ''vm'') = Some vm"
    "asMap (mapIndex config ''chaincode'') = Some chaincode"
    by (auto simp: hasSection_def)
  then show ?thesis using patchConfig_all [OF peer gossip] by blast
qed

lemma patchConfig_ok:
  assumes "patchConfig p dd md home config = Inr config'"
  shows "\<exists>homeDir chaincode. home = Inr homeDir \<and>
     asMap (mapIndex config' ''chaincode'') =
       Some (mapAssign ''externalBuilders'' (externalBuilders homeDir) chaincode)"
proof (cases "missingSections config")
  case Nil
  then obtain chaincode rest where r: "patchConfig p dd md home config =
     (case home of Inl err \<Rightarrow> Inl err
      | Inr homeDir \<Rightarrow> Inr (mapAssign ''chaincode''
           (YMap (mapAssign ''externalBuilders'' (externalBuilders homeDir) chaincode)) rest))"
    using patchConfig_present by blast
  show ?thesis
  proof (cases home)
    case (Inl err)
    then show ?thesis using r assms by simp
  next
    case (Inr homeDir)
    then have c: "config' = mapAssign ''chaincode''
           (YMap (mapAssign ''externalBuilders'' (externalBuilders homeDir) chaincode)) rest"
      using r assms by simp
    have "asMap (mapIndex config' ''chaincode'') =
        Some (mapAssign ''externalBuilders'' (externalBuilders homeDir) chaincode)"
      unfolding c by (simp add: mapIndex_mapAssign asMap_Some)
    then show ?thesis using Inr by blast
  qed
next
  case (Cons s rest)
  then show ?thesis using patchConfig_missing [OF Cons, of p dd md home] assms by simp
qed

lemma builders_fixed:
  "externalBuilders homeDir = YSeq bs \<Longrightarrow>
   map (\<lambda>b. (builderName b, builderEnvironment b)) bs = fixedAllowLists"
  by (auto simp: externalBuilders_def builderName_def builderEnvironment_def mapIndex_def
      fixedAllowLists_def)

section \<open>What the steps before the spawn leave unchanged\<close>

lemma quietI:
  "running w' = running w \<Longrightarrow> next_pid w' = next_pid w \<Longrightarrow> trace w' = trace w @ ext \<Longrightarrow>
   list_all (\<lambda>e. \<not> isSpawn e) ext \<Longrightarrow> quiet w w'"
  by (simp add: quiet_def)

lemma quietD:
  "quiet w w' \<Longrightarrow> \<exists>ext. trace w' = trace w @ ext \<and> list_all (\<lambda>e. \<not> isSpawn e) ext"
  unfolding quiet_def by (metis append_take_drop_id)

lemma quiet_refl: "quiet w w"
  by (simp add: quiet_def)

lemma quiet_trans:
  assumes "quiet w w1" and "quiet w1 w2"
  shows "quiet w w2"
proof -
  obtain e1 where e1: "trace w1 = trace w @ e1" "list_all (\<lambda>e. \<not> isSpawn e) e1"
    using quietD [OF assms(1)] by blast
  obtain e2 where e2: "trace w2 = trace w1 @ e2" "list_all (\<lambda>e. \<not> isSpawn e) e2"
    using quietD [OF assms(2)] by blast
  have "trace w2 = trace w @ (e1 @ e2)" using e1 e2 by simp
  moreover have "list_all (\<lambda>e. \<not> isSpawn e) (e1 @ e2)" using e1 e2 by simp
  moreover have "running w2 = running w" "next_pid w2 = next_pid w"
    using assms by (simp_all add: quiet_def)
  ultimately show ?thesis by (intro quietI)
qed

lemma sameSetting_refl: "sameSetting w w"
  by (simp add: sameSetting_def)

lemma sameSetting_trans: "sameSetting w w1 \<Longrightarrow> sameSetting w1 w2 \<Longrightarrow> sameSetting w w2"
  by (simp add: sameSetting_def)

lemma MkdirAll_frame: "MkdirAll path w = (r, w') \<Longrightarrow> quiet w w' \<and> sameSetting w w'"
  by (auto simp: MkdirAll_def quiet_def sameSetting_def isSpawn_def split: prod.splits option.splits)

lemma WriteFile_frame: "WriteFile path data w = (r, w') \<Longrightarrow> quiet w w' \<and> sameSetting w w'"
  by (auto simp: WriteFile_def quiet_def sameSetting_def isSpawn_def split: prod.splits option.splits)

lemma ReadFile_frame:
  "ReadFile path w = (r, w') \<Longrightarrow> quiet w w' \<and> sameSetting w w' \<and> fs w' = fs w \<and> trace w' = trace w"
  by (auto simp: ReadFile_def quiet_def sameSetting_def split: prod.splits option.splits node.splits)

lemma OpenFile_frame: "OpenFile path w = (r, w') \<Longrightarrow> quiet w w' \<and> sameSetting w w'"
  by (auto simp: OpenFile_def quiet_def sameSetting_def isSpawn_def split: prod.splits option.splits)

lemma StdoutPipe_frame:
  "StdoutPipe w = (r, w') \<Longrightarrow> quiet w w' \<and> sameSetting w w' \<and> fs w' = fs w \<and> trace w' = trace w"
  by (auto simp: StdoutPipe_def quiet_def sameSetting_def split: prod.splits)

lemma mkdirEach_frame: "mkdirEach ds w = (r, w') \<Longrightarrow> quiet w w' \<and> sameSetting w w'"
proof (induction ds arbitrary: w)
  case Nil
  then show ?case by (simp add: quiet_refl sameSetting_refl)
next
  case (Cons d ds)
  obtain r1 w1 where m: "MkdirAll d w = (r1, w1)" by (cases "MkdirAll d w")
  note f1 = MkdirAll_frame [OF m]
  show ?case
  proof (cases r1)
    case None
    then have "mkdirEach ds w1 = (r, w')" using Cons.prems m by simp
    then show ?thesis using Cons.IH f1 quiet_trans sameSetting_trans by blast
  next
    case (Some err)
    then have "w' = w1" using Cons.prems m by simp
    then show ?thesis using f1 by simp
  qed
qed

lemma CreateMSPDirectory_frame:
  assumes "CreateMSPDirectory dir idt w = (r, w')"
  shows "quiet w w' \<and> sameSetting w w'"
proof -
  obtain r1 w1 where 1: "mkdirEach (mspDirectories dir) w = (r1, w1)"
    by (cases "mkdirEach (mspDirectories dir) w")
  obtain r2 w2 where 2: "WriteFile (path_Join [dir, ''config.yaml'']) util_config w1 = (r2, w2)"
    by (cases "WriteFile (path_Join [dir, ''config.yaml'']) util_config w1")
  obtain r3 w3 where
    3: "WriteFile (path_Join [dir, ''keystore'', ''key.pem'']) (privateKey idt) w2 = (r3, w3)"
    by (cases "WriteFile (path_Join [dir, ''keystore'', ''key.pem'']) (privateKey idt) w2")
  obtain r4 w4 where
    4: "WriteFile (path_Join [dir, ''signcerts'', ''cert.pem'']) (certificate idt) w3 = (r4, w4)"
    by (cases "WriteFile (path_Join [dir, ''signcerts'', ''cert.pem'']) (certificate idt) w3")
  note f1 = mkdirEach_frame [OF 1]
  note f2 = WriteFile_frame [OF 2]
  note f3 = WriteFile_frame [OF 3]
  note f4 = WriteFile_frame [OF 4]
  have q2: "quiet w w2 \<and> sameSetting w w2" using f1 f2 quiet_trans sameSetting_trans by blast
  have q3: "quiet w w3 \<and> sameSetting w w3" using q2 f3 quiet_trans sameSetting_trans by blast
  have q4: "quiet w w4 \<and> sameSetting w w4" using q3 f4 quiet_trans sameSetting_trans by blast
  show ?thesis
  proof (cases r1)
    case (Some e)
    then have "w' = w1" using assms 1 by (simp add: CreateMSPDirectory_def)
    then show ?thesis using f1 by simp
  next
    case n1: None
    show ?thesis
    proof (cases r2)
      case (Some e)
      then have "w' = w2" using assms 1 2 n1 by (simp add: CreateMSPDirectory_def)
      then show ?thesis using q2 by simp
    next
      case n2: None
      show ?thesis
      proof (cases r3)
        case (Some e)
        then have "w' = w3" using assms 1 2 3 n1 n2 by (simp add: CreateMSPDirectory_def)
        then show ?thesis using q3 by simp
      next
        case n3: None
        show ?thesis
        proof (cases r4)
          case (Some e)
          then have "w' = w4" using assms 1 2 3 4 n1 n2 n3 by (simp add: CreateMSPDirectory_def)
          then show ?thesis using q4 by simp
        next
          case n4: None
          show ?thesis
          proof (cases "ca idt")
            case None
            then have "w' = w4" using assms 1 2 3 4 n1 n2 n3 n4 by (simp add: CreateMSPDirectory_def)
            then show ?thesis using q4 by simp
          next
            case (Some caBytes)
            then have "WriteFile (path_Join [dir, ''cacerts'', ''ca.pem'']) caBytes w4 = (r, w')"
              using assms 1 2 3 4 n1 n2 n3 n4 by (simp add: CreateMSPDirectory_def)
            then show ?thesis using q4 WriteFile_frame quiet_trans sameSetting_trans by blast
          qed
        qed
      qed
    qed
  qed
qed

lemma createConfig_frame:
  assumes "createConfig p dd md w = (r, w')"
  shows "quiet w w' \<and> sameSetting w w'"
proof (cases "LookupEnv ''FABRIC_CFG_PATH'' w")
  case None
  then have "w' = w" using assms by (simp add: createConfig_def)
  then show ?thesis by (simp add: quiet_refl sameSetting_refl)
next
  case (Some cfgPath)
  obtain r1 w1 where 1: "ReadFile (path_Join [cfgPath, ''core.yaml'']) w = (r1, w1)"
    by (cases "ReadFile (path_Join [cfgPath, ''core.yaml'']) w")
  note f1 = ReadFile_frame [OF 1]
  have "w' = w1 \<or> (\<exists>data. WriteFile (path_Join [directory p, ''config'', ''core.yaml'']) data w1 = (r, w'))"
    using assms Some 1 by (auto simp: createConfig_def split: sum.splits)
  then show ?thesis using f1 WriteFile_frame quiet_trans sameSetting_trans by blast
qed

section \<open>The launch\<close>

lemma dirPrefix_nested: "a \<noteq> [] \<Longrightarrow> dirPrefix (dirPrefix d @ a) = dirPrefix d @ a @ ''/''"
  by (simp add: dirPrefix_def)

lemma path_Join1: "a \<noteq> [] \<Longrightarrow> path_Join [x, a] = dirPrefix x @ a"
  by (rule path_Join2)

lemmas path_nf = path_Join2 path_Join3 dirPrefix_nested

lemma OpenFile_ok:
  "OpenFile path w = (None, w') \<longleftrightarrow>
     fst (popFault (io_faults w)) = None \<and>
     w' = w\<lparr>io_faults := snd (popFault (io_faults w)),
            fs := (fs w)(path \<mapsto> File []),
            trace := trace w @ [EOpenFile path]\<rparr>"
  by (auto simp: OpenFile_def split: prod.splits option.splits)

lemma StdoutPipe_ok:
  "StdoutPipe w = (None, w') \<longleftrightarrow>
     fst (popFault (exec_faults w)) = None \<and> w' = w\<lparr>exec_faults := snd (popFault (exec_faults w))\<rparr>"
  by (auto simp: StdoutPipe_def split: prod.splits)

lemma Cmd_Start_ok:
  "Cmd_Start argv env w = (Inr pid, w') \<longleftrightarrow>
     fst (popFault (exec_faults w)) = None \<and> pid = next_pid w \<and>
     w' = w\<lparr>exec_faults := snd (popFault (exec_faults w)),
            running := insert (next_pid w) (running w),
            next_pid := Suc (next_pid w),
            trace := trace w @ [ESpawn (next_pid w) argv env]\<rparr>"
  by (auto simp: Cmd_Start_def split: prod.splits option.splits)

lemma Cmd_Start_fail:
  "Cmd_Start argv env w = (Inl err, w') \<Longrightarrow> quiet w w' \<and> sameSetting w w'"
  by (auto simp: Cmd_Start_def quiet_def sameSetting_def split: prod.splits option.splits)

lemma CreateMSPDirectory_fs_keep:
  assumes "CreateMSPDirectory dir idt w = (None, w')" and "fs w x = Some v"
    and "x \<noteq> path_Join [dir, ''config.yaml'']"
    and "x \<noteq> path_Join [dir, ''keystore'', ''key.pem'']"
    and "x \<noteq> path_Join [dir, ''signcerts'', ''cert.pem'']"
    and "x \<noteq> path_Join [dir, ''cacerts'', ''ca.pem'']"
  shows "fs w' x = Some v"
proof -
  from assms(1) obtain w1 w2 w3 w4 where
    m: "mkdirEach (mspDirectories dir) w = (None, w1)" and
    c: "WriteFile (path_Join [dir, ''config.yaml'']) util_config w1 = (None, w2)" and
    k: "WriteFile (path_Join [dir, ''keystore'', ''key.pem'']) (privateKey idt) w2 = (None, w3)" and
    s: "WriteFile (path_Join [dir, ''signcerts'', ''cert.pem'']) (certificate idt) w3 = (None, w4)" and
    a: "(case ca idt of
        Some caBytes \<Rightarrow> WriteFile (path_Join [dir, ''cacerts'', ''ca.pem'']) caBytes w4
      | None \<Rightarrow> (None, w4)) = (None, w')"
    unfolding CreateMSPDirectory_def by (auto split: prod.splits option.splits)
  have "fs w1 x = Some v" using mkdirEach_ok [OF m] assms(2) by blast
  then have "fs w4 x = Some v" using c k s assms(3-5) by (simp add: WriteFile_ok)
  then show ?thesis using a assms(6) by (cases "ca idt") (auto simp: WriteFile_ok)
qed

lemma createConfig_ok:
  assumes "createConfig p dd md w = (None, w')"
  shows "\<exists>configData.
     trace w' = trace w @ [EWriteFile (path_Join [directory p, ''config'', ''core.yaml'']) configData] \<and>
     fs w' = (fs w)(path_Join [directory p, ''config'', ''core.yaml''] \<mapsto> File configData)"
proof -
  from assms obtain cfgPath where e: "LookupEnv ''FABRIC_CFG_PATH'' w = Some cfgPath"
    by (auto simp: createConfig_def split: option.splits)
  obtain r1 w1 where 1: "ReadFile (path_Join [cfgPath, ''core.yaml'']) w = (r1, w1)"
    by (cases "ReadFile (path_Join [cfgPath, ''core.yaml'']) w")
  note f1 = ReadFile_frame [OF 1]
  obtain configData where
    "WriteFile (path_Join [directory p, ''config'', ''core.yaml'']) configData w1 = (None, w')"
    using assms e 1 by (auto simp: createConfig_def split: sum.splits)
  then show ?thesis using f1 by (auto simp: WriteFile_ok)
qed

lemma launch_step:
  assumes "createDirectories p w = (r1, w1)"
    and "CreateMSPDirectory (path_Join [directory p, ''msp'']) (identity p) w1 = (r2, w2)"
    and "createConfig p (path_Join [directory p, ''data'']) (path_Join [directory p, ''msp'']) w2 = (r3, w3)"
    and "OpenFile (path_Join [path_Join [directory p, ''logs''], ''peer.log'']) w3 = (r4, w4)"
    and "StdoutPipe w4 = (r5, w5)"
  shows "launch p w =
     (case r1 of Some e \<Rightarrow> (Inl e, w1) | None \<Rightarrow>
      case r2 of Some e \<Rightarrow> (Inl e, w2) | None \<Rightarrow>
      case r3 of Some e \<Rightarrow> (Inl e, w3) | None \<Rightarrow>
      case r4 of Some e \<Rightarrow> (Inl e, w4) | None \<Rightarrow>
      case r5 of Some e \<Rightarrow> (Inl e, w5) | None \<Rightarrow>
        Cmd_Start [''peer'', ''node'', ''start'']
          (Environ w5 @ [''FABRIC_CFG_PATH='' @ path_Join [directory p, ''config'']]) w5)"
  using assms by (simp add: launch_def Let_def split: option.split)


lemma launch_ok:
  assumes "launch p w = (Inr pid, w')"
  shows "\<exists>configData.
     trace w' = trace w @ peerWrites p configData @
       [EOpenFile (path_Join [path_Join [directory p, ''logs''], ''peer.log'']),
        ESpawn pid [''peer'', ''node'', ''start'']
          (Environ w @ [''FABRIC_CFG_PATH='' @ path_Join [directory p, ''config'']])] \<and>
     fs w' (path_Join [directory p, ''config'', ''core.yaml'']) = Some (File configData) \<and>
     fs w' (path_Join [path_Join [directory p, ''msp''], ''config.yaml'']) = Some (File util_config) \<and>
     fs w' (path_Join [path_Join [directory p, ''msp''], ''keystore'', ''key.pem'']) =
       Some (File (privateKey (identity p))) \<and>
     fs w' (path_Join [path_Join [directory p, ''msp''], ''signcerts'', ''cert.pem'']) =
       Some (File (certificate (identity p))) \<and>
     (\<forall>caBytes. ca (identity p) = Some caBytes \<longrightarrow>
        fs w' (path_Join [path_Join [directory p, ''msp''], ''cacerts'', ''ca.pem'']) =
          Some (File caBytes))"
    and "pid = next_pid w" and "running w' = insert pid (running w)"
    and "sameSetting w w'"
proof -
  let ?msp = "path_Join [directory p, ''msp'']"
  let ?cfg = "path_Join [directory p, ''config'', ''core.yaml'']"
  let ?log = "path_Join [path_Join [directory p, ''logs''], ''peer.log'']"
  let ?env = "\<lambda>w. Environ w @ [''FABRIC_CFG_PATH='' @ path_Join [directory p, ''config'']]"
  obtain r1 w1 where 1: "createDirectories p w = (r1, w1)" by (cases "createDirectories p w")
  obtain r2 w2 where 2: "CreateMSPDirectory ?msp (identity p) w1 = (r2, w2)"
    by (cases "CreateMSPDirectory ?msp (identity p) w1")
  obtain r3 w3 where 3: "createConfig p (path_Join [directory p, ''data'']) ?msp w2 = (r3, w3)"
    by (cases "createConfig p (path_Join [directory p, ''data'']) ?msp w2")
  obtain r4 w4 where 4: "OpenFile ?log w3 = (r4, w4)" by (cases "OpenFile ?log w3")
  obtain r5 w5 where 5: "StdoutPipe w4 = (r5, w5)" by (cases "StdoutPipe w4")
  note L = launch_step [OF 1 2 3 4 5]
  have n1: "r1 = None" using L assms by (cases r1) simp_all
  have n2: "r2 = None" using L assms n1 by (cases r2) simp_all
  have n3: "r3 = None" using L assms n1 n2 by (cases r3) simp_all
  have n4: "r4 = None" using L assms n1 n2 n3 by (cases r4) simp_all
  have n5: "r5 = None" using L assms n1 n2 n3 n4 by (cases r5) simp_all
  have 6: "Cmd_Start [''peer'', ''node'', ''start''] (?env w5) w5 = (Inr pid, w')"
    using L assms n1 n2 n3 n4 n5 by simp
  have m1: "mkdirEach (peerDirectories p) w = (None, w1)"
    using 1 n1 by (simp add: createDirectories_def)
  have c2: "CreateMSPDirectory ?msp (identity p) w1 = (None, w2)" using 2 n2 by simp
  have c3: "createConfig p (path_Join [directory p, ''data'']) ?msp w2 = (None, w3)"
    using 3 n3 by simp
  have c4: "OpenFile ?log w3 = (None, w4)" using 4 n4 by simp
  have t1: "trace w1 = trace w @ map EMkdirAll (peerDirectories p)"
    using mkdirEach_ok [OF m1] by simp
  have t2: "trace w2 = trace w1 @ mspWrites ?msp (identity p)"
    by (rule CreateMSPDirectory_ok(1) [OF c2])
  obtain configData where t3: "trace w3 = trace w2 @ [EWriteFile ?cfg configData]"
    and fs3: "fs w3 = (fs w2)(?cfg \<mapsto> File configData)"
    using createConfig_ok [OF c3] by (elim exE conjE)
  have t4: "trace w4 = trace w3 @ [EOpenFile ?log]" and fs4: "fs w4 = (fs w3)(?log \<mapsto> File [])"
    using c4 by (simp_all add: OpenFile_ok)
  have t5: "trace w5 = trace w4" and fs5: "fs w5 = fs w4"
    using StdoutPipe_frame [OF 5] by simp_all
  have t6: "trace w' = trace w5 @ [ESpawn pid [''peer'', ''node'', ''start''] (?env w5)]"
    and fs6: "fs w' = fs w5" and p6: "pid = next_pid w5"
    and r6: "running w' = insert pid (running w5)" and s6: "sameSetting w5 w'"
    using 6 by (simp_all add: Cmd_Start_ok sameSetting_def)
  have q1: "quiet w w1 \<and> sameSetting w w1" by (rule mkdirEach_frame [OF m1])
  have q2: "quiet w w2 \<and> sameSetting w w2"
    using q1 CreateMSPDirectory_frame [OF 2] quiet_trans sameSetting_trans by blast
  have q3: "quiet w w3 \<and> sameSetting w w3"
    using q2 createConfig_frame [OF 3] quiet_trans sameSetting_trans by blast
  have q4: "quiet w w4 \<and> sameSetting w w4"
    using q3 OpenFile_frame [OF 4] quiet_trans sameSetting_trans by blast
  have q5: "quiet w w5" and s5: "sameSetting w w5"
    using q4 StdoutPipe_frame [OF 5] quiet_trans sameSetting_trans by blast+
  have env: "Environ w5 = Environ w" using s5 by (simp add: sameSetting_def Environ_def)
  have tr: "trace w' = trace w @ peerWrites p configData @
       [EOpenFile ?log, ESpawn pid [''peer'', ''node'', ''start''] (?env w)]"
    by (simp add: t6 t5 t4 t3 t2 t1 env peerWrites_def)
  have fsw: "fs w' = (fs w2)(?cfg \<mapsto> File configData, ?log \<mapsto> File [])"
    by (simp add: fs6 fs5 fs4 fs3)
  show "pid = next_pid w" using p6 q5 by (simp add: quiet_def)
  show "running w' = insert pid (running w)" using r6 q5 by (simp add: quiet_def)
  show "sameSetting w w'" using s5 s6 by (rule sameSetting_trans)
  have a: "fs w' ?cfg = Some (File configData)"
    unfolding fsw by (simp add: path_nf)
  have b: "fs w' (path_Join [?msp, ''config.yaml'']) = Some (File util_config)"
    unfolding fsw using CreateMSPDirectory_ok(2) [OF c2] by (simp add: path_nf)
  have c: "fs w' (path_Join [?msp, ''keystore'', ''key.pem'']) = Some (File (privateKey (identity p)))"
    unfolding fsw using CreateMSPDirectory_ok(3) [OF c2] by (simp add: path_nf)
  have d: "fs w' (path_Join [?msp, ''signcerts'', ''cert.pem'']) = Some (File (certificate (identity p)))"
    unfolding fsw using CreateMSPDirectory_ok(4) [OF c2] by (simp add: path_nf)
  have e: "\<forall>caBytes. ca (identity p) = Some caBytes \<longrightarrow>
        fs w' (path_Join [?msp, ''cacerts'', ''ca.pem'']) = Some (File caBytes)"
    unfolding fsw using CreateMSPDirectory_ok(5) [OF c2] by (simp add: path_nf)
  show "\<exists>configData.
     trace w' = trace w @ peerWrites p configData @
       [EOpenFile ?log, ESpawn pid [''peer'', ''node'', ''start''] (?env w)] \<and>
     fs w' ?cfg = Some (File configData) \<and>
     fs w' (path_Join [?msp, ''config.yaml'']) = Some (File util_config) \<and>
     fs w' (path_Join [?msp, ''keystore'', ''key.pem'']) = Some (File (privateKey (identity p))) \<and>
     fs w' (path_Join [?msp, ''signcerts'', ''cert.pem'']) = Some (File (certificate (identity p))) \<and>
     (\<forall>caBytes. ca (identity p) = Some caBytes \<longrightarrow>
        fs w' (path_Join [?msp, ''cacerts'', ''ca.pem'']) = Some (File caBytes))"
    by (intro exI [of _ configData] conjI) (rule tr a b c d e)+
qed


lemma launch_fail:
  assumes "launch p w = (Inl err, w')"
  shows "quiet w w' \<and> sameSetting w w'"
proof -
  let ?msp = "path_Join [directory p, ''msp'']"
  let ?log = "path_Join [path_Join [directory p, ''logs''], ''peer.log'']"
  let ?env = "\<lambda>w. Environ w @ [''FABRIC_CFG_PATH='' @ path_Join [directory p, ''config'']]"
  obtain r1 w1 where 1: "createDirectories p w = (r1, w1)" by (cases "createDirectories p w")
  obtain r2 w2 where 2: "CreateMSPDirectory ?msp (identity p) w1 = (r2, w2)"
    by (cases "CreateMSPDirectory ?msp (identity p) w1")
  obtain r3 w3 where 3: "createConfig p (path_Join [directory p, ''data'']) ?msp w2 = (r3, w3)"
    by (cases "createConfig p (path_Join [directory p, ''data'']) ?msp w2")
  obtain r4 w4 where 4: "OpenFile ?log w3 = (r4, w4)" by (cases "OpenFile ?log w3")
  obtain r5 w5 where 5: "StdoutPipe w4 = (r5, w5)" by (cases "StdoutPipe w4")
  note L = launch_step [OF 1 2 3 4 5]
  have f1: "quiet w w1 \<and> sameSetting w w1"
    using 1 mkdirEach_frame by (simp add: createDirectories_def)
  have f2: "quiet w w2 \<and> sameSetting w w2"
    using f1 CreateMSPDirectory_frame [OF 2] quiet_trans sameSetting_trans by blast
  have f3: "quiet w w3 \<and> sameSetting w w3"
    using f2 createConfig_frame [OF 3] quiet_trans sameSetting_trans by blast
  have f4: "quiet w w4 \<and> sameSetting w w4"
    using f3 OpenFile_frame [OF 4] quiet_trans sameSetting_trans by blast
  have f5: "quiet w w5 \<and> sameSetting w w5"
    using f4 StdoutPipe_frame [OF 5] quiet_trans sameSetting_trans by blast
  have "w' = w1 \<or> w' = w2 \<or> w' = w3 \<or> w' = w4 \<or> w' = w5 \<or>
      Cmd_Start [''peer'', ''node'', ''start''] (?env w5) w5 = (Inl err, w')"
    using assms unfolding L by (auto split: option.splits)
  moreover have "quiet w w' \<and> sameSetting w w'"
    if "Cmd_Start [''peer'', ''node'', ''start''] (?env w5) w5 = (Inl err, w')"
    using f5 Cmd_Start_fail [OF that] quiet_trans sameSetting_trans by blast
  ultimately show ?thesis using f1 f2 f3 f4 f5 by (elim disjE) simp_all
qed

section \<open>The wait loop and Stop\<close>

lemma hasStarted_command: "hasStarted (p\<lparr>command := c\<rparr>) pr = hasStarted p pr"
  by (simp add: hasStarted_def)

lemma waitLoop_ticks:
  "\<forall>pr\<in>set probes. \<not> hasStarted p pr \<Longrightarrow>
   waitLoop pid ch (map SelTick probes @ rest) p w = waitLoop pid ch rest p w"
  by (induction probes) simp_all


lemma Stop_process_done:
  assumes "command p = Some pid" and "pid \<notin> running w"
  shows "Stop p w = (Some (WithMessage ErrProcessDone ''failed to stop peer''), p, w)"
  using assms by (simp add: Stop_def Kill_def)


section \<open>A launch in which nothing fails\<close>

lemma CreateMSPDirectory_exec:
  assumes "CreateMSPDirectory dir idt w = (None, w')"
  shows "exec_faults w' = exec_faults w"
proof -
  from assms obtain w1 w2 w3 w4 where
    m: "mkdirEach (mspDirectories dir) w = (None, w1)" and
    c: "WriteFile (path_Join [dir, ''config.yaml'']) util_config w1 = (None, w2)" and
    k: "WriteFile (path_Join [dir, ''keystore'', ''key.pem'']) (privateKey idt) w2 = (None, w3)" and
    s: "WriteFile (path_Join [dir, ''signcerts'', ''cert.pem'']) (certificate idt) w3 = (None, w4)" and
    a: "(case ca idt of
        Some caBytes \<Rightarrow> WriteFile (path_Join [dir, ''cacerts'', ''ca.pem'']) caBytes w4
      | None \<Rightarrow> (None, w4)) = (None, w')"
    unfolding CreateMSPDirectory_def by (auto split: prod.splits option.splits)
  have "exec_faults w1 = exec_faults w" using mkdirEach_ok [OF m] by simp
  then have "exec_faults w4 = exec_faults w" using c k s by (simp add: WriteFile_ok)
  then show ?thesis using a by (cases "ca idt") (auto simp: WriteFile_ok)
qed

lemma prepare_clean:
  assumes io: "set (io_faults w) \<subseteq> {None}"
    and env: "LookupEnv ''FABRIC_CFG_PATH'' w = Some cfgPath"
    and tpl: "fs w (path_Join [cfgPath, ''core.yaml'']) = Some (File data)"
    and d1: "path_Join [cfgPath, ''core.yaml''] \<noteq> path_Join [path_Join [directory p, ''msp''], ''config.yaml'']"
    and d2: "path_Join [cfgPath, ''core.yaml''] \<noteq>
             path_Join [path_Join [directory p, ''msp''], ''keystore'', ''key.pem'']"
    and d3: "path_Join [cfgPath, ''core.yaml''] \<noteq>
             path_Join [path_Join [directory p, ''msp''], ''signcerts'', ''cert.pem'']"
    and d4: "path_Join [cfgPath, ''core.yaml''] \<noteq>
             path_Join [path_Join [directory p, ''msp''], ''cacerts'', ''ca.pem'']"
  shows "\<exists>w1 w2 w3.
     createDirectories p w = (None, w1) \<and>
     CreateMSPDirectory (path_Join [directory p, ''msp'']) (identity p) w1 = (None, w2) \<and>
     LookupEnv ''FABRIC_CFG_PATH'' w2 = Some cfgPath \<and>
     ReadFile (path_Join [cfgPath, ''core.yaml'']) w2 = (Inr data, w3) \<and>
     set (io_faults w3) \<subseteq> {None} \<and> exec_faults w3 = exec_faults w \<and>
     sameSetting w w3 \<and> quiet w w3"
proof -
  let ?msp = "path_Join [directory p, ''msp'']"
  let ?tpl = "path_Join [cfgPath, ''core.yaml'']"
  obtain w1 where 1: "mkdirEach (peerDirectories p) w = (None, w1)"
    and io1: "set (io_faults w1) \<subseteq> {None}"
    using mkdirEach_clean [OF io] by blast
  obtain w2 where 2: "CreateMSPDirectory ?msp (identity p) w1 = (None, w2)"
    and io2: "set (io_faults w2) \<subseteq> {None}"
    using CreateMSPDirectory_clean [OF io1] by blast
  have fs1: "fs w1 ?tpl = Some (File data)" using mkdirEach_ok [OF 1] tpl by blast
  have fs2: "fs w2 ?tpl = Some (File data)"
    by (rule CreateMSPDirectory_fs_keep [OF 2 fs1 d1 d2 d3 d4])
  have q2: "quiet w w2" and s2: "sameSetting w w2"
    using mkdirEach_frame [OF 1] CreateMSPDirectory_frame [OF 2] quiet_trans sameSetting_trans
    by blast+
  have ex2: "exec_faults w2 = exec_faults w"
    using mkdirEach_ok [OF 1] CreateMSPDirectory_exec [OF 2] by simp
  have env2: "LookupEnv ''FABRIC_CFG_PATH'' w2 = Some cfgPath"
    using env s2 by (simp add: LookupEnv_def sameSetting_def)
  define w3 where "w3 = w2\<lparr>io_faults := tl (io_faults w2)\<rparr>"
  have r: "ReadFile ?tpl w2 = (Inr data, w3)"
    using fs2 by (simp add: ReadFile_def popFault_clean [OF io2] w3_def)
  have io3: "set (io_faults w3) \<subseteq> {None}" using set_tl_clean [OF io2] by (simp add: w3_def)
  have ex3: "exec_faults w3 = exec_faults w" using ex2 by (simp add: w3_def)
  have q3: "quiet w w3" using q2 by (simp add: quiet_def w3_def)
  have s3: "sameSetting w w3" using s2 by (simp add: sameSetting_def w3_def)
  have c1: "createDirectories p w = (None, w1)" using 1 by (simp add: createDirectories_def)
  show ?thesis
    by (intro exI [of _ w1] exI [of _ w2] exI [of _ w3] conjI)
      (rule c1 2 env2 r io3 ex3 s3 q3)+
qed

lemma launch_clean:
  assumes io: "set (io_faults w) \<subseteq> {None}" and ex: "set (exec_faults w) \<subseteq> {None}"
    and env: "LookupEnv ''FABRIC_CFG_PATH'' w = Some cfgPath"
    and tpl: "fs w (path_Join [cfgPath, ''core.yaml'']) = Some (File data)"
    and d1: "path_Join [cfgPath, ''core.yaml''] \<noteq> path_Join [path_Join [directory p, ''msp''], ''config.yaml'']"
    and d2: "path_Join [cfgPath, ''core.yaml''] \<noteq>
             path_Join [path_Join [directory p, ''msp''], ''keystore'', ''key.pem'']"
    and d3: "path_Join [cfgPath, ''core.yaml''] \<noteq>
             path_Join [path_Join [directory p, ''msp''], ''signcerts'', ''cert.pem'']"
    and d4: "path_Join [cfgPath, ''core.yaml''] \<noteq>
             path_Join [path_Join [directory p, ''msp''], ''cacerts'', ''ca.pem'']"
    and um: "yamlUnmarshal w data = Inr config"
    and ms: "missingSections config = []"
    and home: "homeDirectory w = Inr homeDir"
    and mar: "\<forall>y. \<exists>bytes. yamlMarshal w y = Inr bytes"
  shows "\<exists>w'. launch p w = (Inr (next_pid w), w')"
proof -
  let ?msp = "path_Join [directory p, ''msp'']"
  let ?dd = "path_Join [directory p, ''data'']"
  let ?tpl = "path_Join [cfgPath, ''core.yaml'']"
  let ?cfg = "path_Join [directory p, ''config'', ''core.yaml'']"
  let ?log = "path_Join [path_Join [directory p, ''logs''], ''peer.log'']"
  obtain w1 w2 w3 where
    1: "createDirectories p w = (None, w1)" and
    2: "CreateMSPDirectory ?msp (identity p) w1 = (None, w2)" and
    env2: "LookupEnv ''FABRIC_CFG_PATH'' w2 = Some cfgPath" and
    r: "ReadFile ?tpl w2 = (Inr data, w3)" and
    io3: "set (io_faults w3) \<subseteq> {None}" and ex3: "exec_faults w3 = exec_faults w" and
    s3: "sameSetting w w3" and q3: "quiet w w3"
    using prepare_clean [OF io env tpl d1 d2 d3 d4] by blast
  have um3: "yamlUnmarshal w3 data = Inr config" using um s3 by (simp add: sameSetting_def)
  have home3: "homeDirectory w3 = Inr homeDir" using home s3 by (simp add: sameSetting_def)
  obtain config' where pc: "patchConfig p ?dd ?msp (homeDirectory w3) config = Inr config'"
    using patchConfig_present [OF ms, of p ?dd ?msp "homeDirectory w3"] home3 by auto
  obtain bytes where mb: "yamlMarshal w3 (YMap config') = Inr bytes"
    using mar s3 by (auto simp: sameSetting_def)
  obtain w4 where 4: "WriteFile ?cfg bytes w3 = (None, w4)" and io4: "set (io_faults w4) \<subseteq> {None}"
    using WriteFile_clean [OF io3] by blast
  have cc: "createConfig p ?dd ?msp w2 = (None, w4)"
    using env2 r um3 pc mb 4 by (simp add: createConfig_def)
  have ex4: "exec_faults w4 = exec_faults w" using 4 ex3 by (auto simp: WriteFile_ok)
  have np4: "next_pid w4 = next_pid w" using 4 q3 by (auto simp: WriteFile_ok quiet_def)
  define w5 where "w5 = w4\<lparr>io_faults := tl (io_faults w4), fs := (fs w4)(?log \<mapsto> File []),
      trace := trace w4 @ [EOpenFile ?log]\<rparr>"
  have 5: "OpenFile ?log w4 = (None, w5)"
    by (simp add: OpenFile_def popFault_clean [OF io4] w5_def)
  have ex5: "set (exec_faults w5) \<subseteq> {None}" using ex ex4 by (simp add: w5_def)
  define w6 where "w6 = w5\<lparr>exec_faults := tl (exec_faults w5)\<rparr>"
  have 6: "StdoutPipe w5 = (None, w6)"
    by (simp add: StdoutPipe_def popFault_clean [OF ex5] w6_def)
  have ex6: "set (exec_faults w6) \<subseteq> {None}" using set_tl_clean [OF ex5] by (simp add: w6_def)
  have np6: "next_pid w6 = next_pid w" using np4 by (simp add: w6_def w5_def)
  have "\<exists>w'. Cmd_Start [''peer'', ''node'', ''start'']
          (Environ w6 @ [''FABRIC_CFG_PATH='' @ path_Join [directory p, ''config'']]) w6 =
        (Inr (next_pid w), w')"
    by (simp add: Cmd_Start_def popFault_clean [OF ex6] np6)
  then show ?thesis
    using launch_step [OF 1 2 cc 5 6] by simp
qed

lemma example_launch:
  "\<exists>w1. launch examplePeer (exampleWorld\<lparr>kill_faults := q\<rparr>) = (Inr 1, w1) \<and>
        running w1 = {1} \<and> kill_faults w1 = q \<and> trace w1 \<noteq> []"
proof -
  let ?w = "exampleWorld\<lparr>kill_faults := q\<rparr>"
  have "\<exists>w'. launch examplePeer ?w = (Inr (next_pid ?w), w')"
    by (rule launch_clean [where cfgPath = "''/cfg''" and data = "''template''"
          and config = exampleTemplate and homeDir = "''/home/fab''"])
      (simp_all add: exampleWorld_def worldWith_def examplePeer_def peerAt_def LookupEnv_def
        path_Join_def missingSections_def hasSection_def exampleTemplate_def mapIndex_def asMap_def)
  then obtain w1 where l: "launch examplePeer ?w = (Inr 1, w1)"
    by (auto simp: exampleWorld_def worldWith_def)
  have "running w1 = insert 1 (running ?w)" by (rule launch_ok(3) [OF l])
  then have r: "running w1 = {1}" by (simp add: exampleWorld_def worldWith_def)
  have k: "kill_faults w1 = q" using launch_ok(4) [OF l] by (simp add: sameSetting_def)
  have t: "trace w1 \<noteq> []" using launch_ok(1) [OF l] by auto
  show ?thesis using l r k t by blast
qed

section \<open>Starting a peer\<close>

lemma Start_after_launch:
  "launch p w = (Inr pid, w1) \<Longrightarrow>
   Start p sched w = waitLoop pid None sched (p\<lparr>command := Some pid\<rparr>) w1"
  by (simp add: Start_def)

lemma Start_launch_failed:
  "launch p w = (Inl err, w1) \<Longrightarrow> Start p sched w = Some (Some err, p, w1)"
  by (simp add: Start_def)

lemma waitLoop_timeout:
  assumes "\<forall>pr\<in>set probes. \<not> hasStarted p pr"
  shows "waitLoop pid ch (map SelTick probes @ SelTimeout # rest) p w =
     Some (Some (ErrorString ''timeout whilst waiting for peer to start''), snd (Stop p w))"
  by (simp add: waitLoop_ticks [OF assms] split: prod.split)

lemma waitLoop_errchan:
  assumes "\<forall>pr\<in>set probes. \<not> hasStarted p pr"
  shows "waitLoop pid ch (map SelTick probes @ SelErrchan # rest) p w =
     (case ch of None \<Rightarrow> None
      | Some err \<Rightarrow> Some (Some (WithMessage err ''failed to start peer''), snd (Stop p w)))"
  by (simp add: waitLoop_ticks [OF assms] split: prod.split option.split)

lemma waitLoop_exit:
  assumes "\<forall>pr\<in>set probes. \<not> hasStarted p pr" and "pid \<in> running w"
  shows "waitLoop pid ch (map SelTick probes @ ProcExit r # rest) p w =
     waitLoop pid (case r of Some err \<Rightarrow> Some err | None \<Rightarrow> ch) rest p
       (w\<lparr>running := running w - {pid}\<rparr>)"
  using assms(2) by (simp add: waitLoop_ticks [OF assms(1)])

lemma example_probe: "\<forall>pr\<in>set [failingProbe]. \<not> hasStarted p pr"
  by (simp add: hasStarted_def failingProbe_def)












text \<open>
  C3, as the code has it. After a launch that spawned the process, with every probe
  failing: when the process exits and \<open>cmd.Wait()\<close> returns a non-nil error, that error is
  put on \<open>errchan\<close>, and once \<open>Start\<close> receives it, \<open>Start\<close> returns it wrapped in "failed to
  start peer". When the process exits cleanly (\<open>cmd.Wait()\<close> returns nil) nothing is sent:
  no receive from \<open>errchan\<close> can follow, and \<open>Start\<close> goes on waiting, up to the timeout
  error.
\<close>

theorem Start_process_exit:
  assumes "launch p w = (Inr pid, w1)"
    and "\<forall>pr\<in>set before. \<not> hasStarted p pr"
    and "\<forall>pr\<in>set after. \<not> hasStarted p pr"
  shows "Start p (map SelTick before @ ProcExit (Some err) # map SelTick after @ SelErrchan # rest) w =
           Some (Some (WithMessage err ''failed to start peer''),
                 p\<lparr>command := Some pid\<rparr>, w1\<lparr>running := running w1 - {pid}\<rparr>) \<and>
         Start p (map SelTick before @ ProcExit None # map SelTick after @ SelErrchan # rest) w = None \<and>
         Start p (map SelTick before @ ProcExit None # map SelTick after @ SelTimeout # rest) w =
           Some (Some (ErrorString ''timeout whilst waiting for peer to start''),
                 p\<lparr>command := Some pid\<rparr>, w1\<lparr>running := running w1 - {pid}\<rparr>)"
proof -
  let ?p = "p\<lparr>command := Some pid\<rparr>"
  let ?w = "w1\<lparr>running := running w1 - {pid}\<rparr>"
  have b: "\<forall>pr\<in>set before. \<not> hasStarted ?p pr"
    using assms(2) by (simp add: hasStarted_command)
  have a: "\<forall>pr\<in>set after. \<not> hasStarted ?p pr"
    using assms(3) by (simp add: hasStarted_command)
  have run: "pid \<in> running w1" using launch_ok(3) [OF assms(1)] by simp
  have st: "Stop ?p ?w = (Some (WithMessage ErrProcessDone ''failed to stop peer''), ?p, ?w)"
    by (rule Stop_process_done [where pid = pid]) simp_all
  show ?thesis
    unfolding Start_after_launch [OF assms(1)] waitLoop_exit [OF b run]
      waitLoop_errchan [OF a] waitLoop_timeout [OF a] st
    by simp
qed

theorem Start_process_exit_witness:
  "\<not> hasStarted examplePeer failingProbe \<and>
   (\<exists>w1. launch examplePeer (worldKill []) = (Inr 1, w1) \<and>
      Start examplePeer
        (map SelTick [failingProbe] @ ProcExit (Some (ErrorString ''exit status 1'')) #
         map SelTick [failingProbe] @ SelErrchan # []) (worldKill []) =
      Some (Some (WithMessage (ErrorString ''exit status 1'') ''failed to start peer''),
            examplePeer\<lparr>command := Some 1\<rparr>, w1\<lparr>running := running w1 - {1}\<rparr>))"
proof -
  obtain w1 where l: "launch examplePeer (worldKill []) = (Inr 1, w1)"
    using example_launch [of "[]"] by (auto simp: worldKill_def)
  note T = Start_process_exit [OF l example_probe example_probe,
      of "ErrorString ''exit status 1''" "[]", THEN conjunct1]
  from l T have "\<exists>w1. launch examplePeer (worldKill []) = (Inr 1, w1) \<and>
      Start examplePeer
        (map SelTick [failingProbe] @ ProcExit (Some (ErrorString ''exit status 1'')) #
         map SelTick [failingProbe] @ SelErrchan # []) (worldKill []) =
      Some (Some (WithMessage (ErrorString ''exit status 1'') ''failed to start peer''),
            examplePeer\<lparr>command := Some 1\<rparr>, w1\<lparr>running := running w1 - {1}\<rparr>)"
    by (intro exI [of _ w1] conjI)
  moreover have "\<not> hasStarted examplePeer failingProbe"
    by (simp add: hasStarted_def failingProbe_def)
  ultimately show ?thesis by (intro conjI)
qed

text \<open>The process exits with status 0 at once, before any probe and before the timeout:
  \<open>Start\<close> returns the timeout error, and a receive from \<open>errchan\<close> is not possible.\<close>

theorem Start_clean_exit_counterexample:
  "map_option fst (Start examplePeer [ProcExit None, SelTick failingProbe, SelTimeout] (worldKill [])) =
     Some (Some (ErrorString ''timeout whilst waiting for peer to start'')) \<and>
   Start examplePeer [ProcExit None, SelErrchan] (worldKill []) = None"
proof -
  obtain w1 where l: "launch examplePeer (worldKill []) = (Inr 1, w1)"
    and r: "running w1 = {1}"
    using example_launch [of "[]"] by (auto simp: worldKill_def)
  have run: "1 \<in> running w1" using r by simp
  have e1: "[ProcExit None, SelTick failingProbe, SelTimeout] =
      map SelTick [] @ ProcExit None # map SelTick [failingProbe] @ SelTimeout # []" by simp
  have e2: "[ProcExit None, SelErrchan] =
      map SelTick [] @ ProcExit None # map SelTick [] @ SelErrchan # []" by simp
  have n: "\<forall>pr\<in>set []. \<not> hasStarted (examplePeer\<lparr>command := Some 1\<rparr>) pr" by simp
  have a: "Start examplePeer [ProcExit None, SelTick failingProbe, SelTimeout] (worldKill []) =
      Some (Some (ErrorString ''timeout whilst waiting for peer to start''),
        snd (Stop (examplePeer\<lparr>command := Some 1\<rparr>) (w1\<lparr>running := running w1 - {1}\<rparr>)))"
    unfolding e1 Start_after_launch [OF l] waitLoop_exit [OF n run]
      waitLoop_timeout [OF example_probe]
    by simp
  have b: "Start examplePeer [ProcExit None, SelErrchan] (worldKill []) = None"
    unfolding e2 Start_after_launch [OF l] waitLoop_exit [OF n run] waitLoop_errchan [OF n]
    by simp
  show ?thesis using a b by simp
qed

lemma createConfig_missing:
  assumes "LookupEnv ''FABRIC_CFG_PATH'' w = Some cfgPath"
    and "ReadFile (path_Join [cfgPath, ''core.yaml'']) w = (Inr configData, w')"
    and "yamlUnmarshal w' configData = Inr config"
    and "missingSections config = s # rest"
  shows "createConfig p dd md w =
           (Some (ErrorString (''core.yaml missing '' @ s @ '' section'')), w')"
  using assms(1-3) patchConfig_missing [OF assms(4), of p dd md "homeDirectory w'"]
  by (simp add: createConfig_def)

text \<open>
  C4. For a decoded template that lacks required sections, \<open>s\<close> being the first one missing
  in the order peer, peer.gossip, metrics, operations, vm, chaincode (so the missing one,
  when only one is missing): the patching of \<open>createConfig\<close> fails with the error
  "core.yaml missing \<open>s\<close> section"; and a \<open>Start\<close> that gets as far as decoding this
  template returns that error with the peer unchanged, without any process created and
  without a spawn in its trace.
\<close>

theorem missing_section_aborts_start:
  assumes "missingSections config = s # rest"
  shows "patchConfig p dd md home config =
           Inl (ErrorString (''core.yaml missing '' @ s @ '' section'')) \<and>
         (createDirectories p w = (None, w1) \<and>
          CreateMSPDirectory (path_Join [directory p, ''msp'']) (identity p) w1 = (None, w2) \<and>
          LookupEnv ''FABRIC_CFG_PATH'' w2 = Some cfgPath \<and>
          ReadFile (path_Join [cfgPath, ''core.yaml'']) w2 = (Inr configData, w3) \<and>
          yamlUnmarshal w3 configData = Inr config \<longrightarrow>
            Start p sched w =
              Some (Some (ErrorString (''core.yaml missing '' @ s @ '' section'')), p, w3) \<and>
            quiet w w3)"
proof (intro conjI impI)
  show "patchConfig p dd md home config =
           Inl (ErrorString (''core.yaml missing '' @ s @ '' section''))"
    by (rule patchConfig_missing [OF assms])
next
  assume h: "createDirectories p w = (None, w1) \<and>
          CreateMSPDirectory (path_Join [directory p, ''msp'']) (identity p) w1 = (None, w2) \<and>
          LookupEnv ''FABRIC_CFG_PATH'' w2 = Some cfgPath \<and>
          ReadFile (path_Join [cfgPath, ''core.yaml'']) w2 = (Inr configData, w3) \<and>
          yamlUnmarshal w3 configData = Inr config"
  let ?msp = "path_Join [directory p, ''msp'']"
  let ?log = "path_Join [path_Join [directory p, ''logs''], ''peer.log'']"
  have 1: "createDirectories p w = (None, w1)" using h by simp
  have 2: "CreateMSPDirectory ?msp (identity p) w1 = (None, w2)" using h by simp
  have 3: "createConfig p (path_Join [directory p, ''data'']) ?msp w2 =
      (Some (ErrorString (''core.yaml missing '' @ s @ '' section'')), w3)"
  proof (rule createConfig_missing [OF _ _ _ assms])
    show "LookupEnv ''FABRIC_CFG_PATH'' w2 = Some cfgPath" using h by simp
    show "ReadFile (path_Join [cfgPath, ''core.yaml'']) w2 = (Inr configData, w3)" using h by simp
    show "yamlUnmarshal w3 configData = Inr config" using h by simp
  qed
  obtain r4 w4 where 4: "OpenFile ?log w3 = (r4, w4)" by (cases "OpenFile ?log w3")
  obtain r5 w5 where 5: "StdoutPipe w4 = (r5, w5)" by (cases "StdoutPipe w4")
  have l: "launch p w = (Inl (ErrorString (''core.yaml missing '' @ s @ '' section'')), w3)"
    unfolding launch_step [OF 1 2 3 4 5] by simp
  show "Start p sched w =
      Some (Some (ErrorString (''core.yaml missing '' @ s @ '' section'')), p, w3)"
    by (rule Start_launch_failed [OF l])
  show "quiet w w3" using launch_fail [OF l] by simp
qed

lemma example_noMetrics: "missingSections noMetricsTemplate = [''metrics'']"
  by (simp add: missingSections_def hasSection_def noMetricsTemplate_def mapIndex_def asMap_def)

theorem missing_section_aborts_start_witness:
  "missingSections noMetricsTemplate = ''metrics'' # [] \<and>
   (\<exists>w3. Start examplePeer [] (worldWith noMetricsTemplate) =
            Some (Some (ErrorString ''core.yaml missing metrics section''), examplePeer, w3) \<and>
         running w3 = {} \<and> list_all (\<lambda>e. \<not> isSpawn e) (trace w3))"
proof -
  let ?w = "worldWith noMetricsTemplate"
  have "\<exists>w1 w2 w3.
     createDirectories examplePeer ?w = (None, w1) \<and>
     CreateMSPDirectory (path_Join [directory examplePeer, ''msp'']) (identity examplePeer) w1 =
       (None, w2) \<and>
     LookupEnv ''FABRIC_CFG_PATH'' w2 = Some ''/cfg'' \<and>
     ReadFile (path_Join [''/cfg'', ''core.yaml'']) w2 = (Inr ''template'', w3) \<and>
     set (io_faults w3) \<subseteq> {None} \<and> exec_faults w3 = exec_faults ?w \<and>
     sameSetting ?w w3 \<and> quiet ?w w3"
    by (rule prepare_clean)
      (simp_all add: worldWith_def examplePeer_def peerAt_def LookupEnv_def path_Join_def)
  then obtain w1 w2 w3 where
    1: "createDirectories examplePeer ?w = (None, w1)" and
    2: "CreateMSPDirectory (path_Join [directory examplePeer, ''msp'']) (identity examplePeer) w1 =
       (None, w2)" and
    3: "LookupEnv ''FABRIC_CFG_PATH'' w2 = Some ''/cfg''" and
    4: "ReadFile (path_Join [''/cfg'', ''core.yaml'']) w2 = (Inr ''template'', w3)" and
    s: "sameSetting ?w w3"
    by (elim exE conjE)
  have 5: "yamlUnmarshal w3 ''template'' = Inr noMetricsTemplate"
    using s by (simp add: sameSetting_def worldWith_def)
  have h: "createDirectories examplePeer ?w = (None, w1) \<and>
     CreateMSPDirectory (path_Join [directory examplePeer, ''msp'']) (identity examplePeer) w1 =
       (None, w2) \<and>
     LookupEnv ''FABRIC_CFG_PATH'' w2 = Some ''/cfg'' \<and>
     ReadFile (path_Join [''/cfg'', ''core.yaml'']) w2 = (Inr ''template'', w3) \<and>
     yamlUnmarshal w3 ''template'' = Inr noMetricsTemplate"
    using 1 2 3 4 5 by (intro conjI)
  note T = missing_section_aborts_start [OF example_noMetrics,
      of examplePeer "[]" "[]" "Inl EPERM" ?w w1 w2 "''/cfg''" "''template''" w3 "[]",
      THEN conjunct2, THEN mp, OF h]
  have st: "Start examplePeer [] ?w =
      Some (Some (ErrorString ''core.yaml missing metrics section''), examplePeer, w3)"
    using T [THEN conjunct1] by simp
  have q: "quiet ?w w3" by (rule T [THEN conjunct2])
  have r: "running w3 = {}" using q by (simp add: quiet_def worldWith_def)
  have t: "list_all (\<lambda>e. \<not> isSpawn e) (trace w3)"
    using q by (simp add: quiet_def worldWith_def)
  from st r t have "\<exists>w3. Start examplePeer [] ?w =
            Some (Some (ErrorString ''core.yaml missing metrics section''), examplePeer, w3) \<and>
         running w3 = {} \<and> list_all (\<lambda>e. \<not> isSpawn e) (trace w3)"
    by (intro exI [of _ w3] conjI)
  then show ?thesis using example_noMetrics by (intro conjI)
qed

lemma Stop_effects:
  assumes "Stop p w = (r, p', w')"
  shows "fs w' = fs w \<and> next_pid w' = next_pid w \<and>
         (\<exists>ext. trace w' = trace w @ ext \<and> list_all (\<lambda>e. \<not> isSpawn e) ext)"
proof (cases "command p")
  case None
  then show ?thesis using assms by (simp add: Stop_def)
next
  case (Some pid)
  obtain r1 w1 where k: "Kill pid w = (r1, w1)" by (cases "Kill pid w")
  have w': "w' = w1" using assms Some k by (cases r1) (simp_all add: Stop_def)
  have "fs w1 = fs w \<and> next_pid w1 = next_pid w \<and>
         (\<exists>ext. trace w1 = trace w @ ext \<and> list_all (\<lambda>e. \<not> isSpawn e) ext)"
    using k by (auto simp: Kill_def isSpawn_def split: if_splits prod.splits option.splits)
  then show ?thesis using w' by simp
qed

lemma waitLoop_effects:
  "waitLoop pid ch sched p w = Some (r, p', w') \<Longrightarrow>
   fs w' = fs w \<and> next_pid w' = next_pid w \<and>
   (\<exists>ext. trace w' = trace w @ ext \<and> list_all (\<lambda>e. \<not> isSpawn e) ext)"
proof (induction sched arbitrary: ch w)
  case Nil
  then show ?case by simp
next
  case (Cons e sched)
  show ?case
  proof (cases e)
    case (ProcExit x)
    then have "waitLoop pid (case x of Some err \<Rightarrow> Some err | None \<Rightarrow> ch) sched p
        (w\<lparr>running := running w - {pid}\<rparr>) = Some (r, p', w')"
      using Cons.prems by (simp split: if_splits)
    from Cons.IH [OF this] show ?thesis by simp
  next
    case SelTimeout
    then have "snd (Stop p w) = (p', w')" using Cons.prems by (simp split: prod.splits)
    then have "Stop p w = (fst (Stop p w), p', w')" by (metis prod.collapse)
    then show ?thesis by (rule Stop_effects)
  next
    case SelErrchan
    then have "snd (Stop p w) = (p', w')"
      using Cons.prems by (simp split: prod.splits option.splits)
    then have "Stop p w = (fst (Stop p w), p', w')" by (metis prod.collapse)
    then show ?thesis by (rule Stop_effects)
  next
    case (SelTick pr)
    show ?thesis
    proof (cases "hasStarted p pr")
      case True
      then have "w' = w" using Cons.prems SelTick by simp
      then show ?thesis by simp
    next
      case False
      then have "waitLoop pid ch sched p w = Some (r, p', w')" using Cons.prems SelTick by simp
      from Cons.IH [OF this] show ?thesis .
    qed
  next
    case SelTickBlocks
    then show ?thesis using Cons.prems by simp
  qed
qed



text \<open>
  C7. \<open>Start\<close> begins with the launch. When the launch ends in an error, \<open>Start\<close> returns
  that error with the peer unchanged, and no process was created on the way: the trace
  grew by no spawn. When the launch spawns process \<open>pid\<close>, the spawn is the last entry of the
  trace, and the entries before it are, complete and in order, the peer's directories, all
  effects of a successful \<open>CreateMSPDirectory\<close>, the write of the patched \<open>core.yaml\<close> and the
  opening of the log file; at that moment the file system holds the descriptor, the key,
  the certificate, the CA certificate of an identity that has one, and the patched
  document. Whatever \<open>Start\<close> does after the launch changes no file and spawns nothing.
\<close>

theorem writes_before_spawn:
  assumes "launch p w = (r, w1)"
  shows "case r of
           Inl err \<Rightarrow> Start p sched w = Some (Some err, p, w1) \<and> quiet w w1
         | Inr pid \<Rightarrow>
             (\<exists>configData.
                trace w1 = trace w @ peerWrites p configData @
                  [EOpenFile (path_Join [path_Join [directory p, ''logs''], ''peer.log'']),
                   ESpawn pid [''peer'', ''node'', ''start'']
                     (Environ w @ [''FABRIC_CFG_PATH='' @ path_Join [directory p, ''config'']])] \<and>
                fs w1 (path_Join [directory p, ''config'', ''core.yaml'']) = Some (File configData) \<and>
                fs w1 (path_Join [path_Join [directory p, ''msp''], ''config.yaml'']) =
                  Some (File util_config) \<and>
                fs w1 (path_Join [path_Join [directory p, ''msp''], ''keystore'', ''key.pem'']) =
                  Some (File (privateKey (identity p))) \<and>
                fs w1 (path_Join [path_Join [directory p, ''msp''], ''signcerts'', ''cert.pem'']) =
                  Some (File (certificate (identity p))) \<and>
                (\<forall>caBytes. ca (identity p) = Some caBytes \<longrightarrow>
                   fs w1 (path_Join [path_Join [directory p, ''msp''], ''cacerts'', ''ca.pem'']) =
                     Some (File caBytes))) \<and>
             (\<forall>res p' w2. Start p sched w = Some (res, p', w2) \<longrightarrow>
                fs w2 = fs w1 \<and>
                (\<exists>ext. trace w2 = trace w1 @ ext \<and> list_all (\<lambda>e. \<not> isSpawn e) ext))"
proof (cases r)
  case (Inl err)
  then have l: "launch p w = (Inl err, w1)" using assms by simp
  have "Start p sched w = Some (Some err, p, w1) \<and> quiet w w1"
    using Start_launch_failed [OF l] launch_fail [OF l] by simp
  then show ?thesis unfolding Inl sum.case .
next
  case (Inr pid)
  then have l: "launch p w = (Inr pid, w1)" using assms by simp
  note a = launch_ok(1) [OF l]
  have b: "\<forall>res p' w2. Start p sched w = Some (res, p', w2) \<longrightarrow>
                fs w2 = fs w1 \<and>
                (\<exists>ext. trace w2 = trace w1 @ ext \<and> list_all (\<lambda>e. \<not> isSpawn e) ext)"
  proof (intro allI impI)
    fix res p' w2
    assume "Start p sched w = Some (res, p', w2)"
    then have "waitLoop pid None sched (p\<lparr>command := Some pid\<rparr>) w1 = Some (res, p', w2)"
      by (simp only: Start_after_launch [OF l])
    from waitLoop_effects [OF this]
    show "fs w2 = fs w1 \<and>
        (\<exists>ext. trace w2 = trace w1 @ ext \<and> list_all (\<lambda>e. \<not> isSpawn e) ext)"
      by (elim conjE) (rule conjI)
  qed
  from a b show ?thesis unfolding Inr sum.case by (rule conjI)
qed

theorem writes_before_spawn_witness:
  "\<exists>w1 configData.
     launch examplePeer (worldKill []) = (Inr 1, w1) \<and>
     Start examplePeer [SelTick okProbe] (worldKill []) =
       Some (None, examplePeer\<lparr>command := Some 1\<rparr>, w1) \<and>
     trace w1 = peerWrites examplePeer configData @
       [EOpenFile ''/tmp/org1peer/logs/peer.log'',
        ESpawn 1 [''peer'', ''node'', ''start'']
          [''FABRIC_CFG_PATH=/cfg'', ''FABRIC_CFG_PATH=/tmp/org1peer/config'']] \<and>
     fs w1 ''/tmp/org1peer/config/core.yaml'' = Some (File configData) \<and>
     fs w1 ''/tmp/org1peer/msp/keystore/key.pem'' = Some (File ''peerkey'') \<and>
     fs w1 ''/tmp/org1peer/msp/signcerts/cert.pem'' = Some (File ''peercert'') \<and>
     fs w1 ''/tmp/org1peer/msp/cacerts/ca.pem'' = Some (File ''cacert'')"
proof -
  obtain w1 where l: "launch examplePeer (worldKill []) = (Inr 1, w1)"
    using example_launch [of "[]"] by (auto simp: worldKill_def)
  note T = writes_before_spawn [OF l, of "[SelTick okProbe]", unfolded sum.case]
  have st: "Start examplePeer [SelTick okProbe] (worldKill []) =
      Some (None, examplePeer\<lparr>command := Some 1\<rparr>, w1)"
    by (simp add: Start_after_launch [OF l] hasStarted_def okProbe_def)
  have after: "fs w1 = fs w1 \<and>
      (\<exists>ext. trace w1 = trace w1 @ ext \<and> list_all (\<lambda>e. \<not> isSpawn e) ext)"
    by (rule T [THEN conjunct2, rule_format, OF st])
  have idt: "privateKey (identity examplePeer) = ''peerkey''"
    "certificate (identity examplePeer) = ''peercert''"
    "ca (identity examplePeer) = Some ''cacert''"
    "directory examplePeer = ''/tmp/org1peer''"
    by (simp_all add: examplePeer_def peerAt_def)
  have w0: "trace (worldKill []) = []" "Environ (worldKill []) = [''FABRIC_CFG_PATH=/cfg'']"
    by (simp_all add: worldKill_def exampleWorld_def worldWith_def Environ_def)
  obtain configData where
    tr: "trace w1 = trace (worldKill []) @ peerWrites examplePeer configData @
        [EOpenFile (path_Join [path_Join [directory examplePeer, ''logs''], ''peer.log'']),
         ESpawn 1 [''peer'', ''node'', ''start'']
           (Environ (worldKill []) @
            [''FABRIC_CFG_PATH='' @ path_Join [directory examplePeer, ''config'']])]" and
    c: "fs w1 (path_Join [directory examplePeer, ''config'', ''core.yaml'']) = Some (File configData)" and
    k: "fs w1 (path_Join [path_Join [directory examplePeer, ''msp''], ''keystore'', ''key.pem'']) =
        Some (File (privateKey (identity examplePeer)))" and
    s: "fs w1 (path_Join [path_Join [directory examplePeer, ''msp''], ''signcerts'', ''cert.pem'']) =
        Some (File (certificate (identity examplePeer)))" and
    a: "\<forall>caBytes. ca (identity examplePeer) = Some caBytes \<longrightarrow>
        fs w1 (path_Join [path_Join [directory examplePeer, ''msp''], ''cacerts'', ''ca.pem'']) =
          Some (File caBytes)"
    using T [THEN conjunct1] by (elim exE conjE)
  have tr': "trace w1 = peerWrites examplePeer configData @
       [EOpenFile ''/tmp/org1peer/logs/peer.log'',
        ESpawn 1 [''peer'', ''node'', ''start'']
          [''FABRIC_CFG_PATH=/cfg'', ''FABRIC_CFG_PATH=/tmp/org1peer/config'']]"
    using tr by (simp add: w0 idt path_Join_def)
  have c': "fs w1 ''/tmp/org1peer/config/core.yaml'' = Some (File configData)"
    using c by (simp add: idt path_Join_def)
  have k': "fs w1 ''/tmp/org1peer/msp/keystore/key.pem'' = Some (File ''peerkey'')"
    using k by (simp add: idt path_Join_def)
  have s': "fs w1 ''/tmp/org1peer/msp/signcerts/cert.pem'' = Some (File ''peercert'')"
    using s by (simp add: idt path_Join_def)
  have a': "fs w1 ''/tmp/org1peer/msp/cacerts/ca.pem'' = Some (File ''cacert'')"
    using a [rule_format, OF idt(3)] by (simp add: idt path_Join_def)
  show ?thesis
    by (intro exI [of _ w1] exI [of _ configData] conjI) (rule l st tr' c' k' s' a')+
qed

section \<open>The configuration document that is written\<close>

lemma ReadFile_ok:
  "ReadFile path w = (Inr data, w') \<longleftrightarrow>
     fst (popFault (io_faults w)) = None \<and> fs w path = Some (File data) \<and>
     w' = w\<lparr>io_faults := snd (popFault (io_faults w))\<rparr>"
  by (auto simp: ReadFile_def split: prod.splits option.splits node.splits)

lemma createConfig_result:
  assumes "createConfig p dd md w = (None, w')"
  shows "\<exists>cfgPath configData config config' bytes.
     LookupEnv ''FABRIC_CFG_PATH'' w = Some cfgPath \<and>
     fs w (path_Join [cfgPath, ''core.yaml'']) = Some (File configData) \<and>
     yamlUnmarshal w configData = Inr config \<and>
     patchConfig p dd md (homeDirectory w) config = Inr config' \<and>
     yamlMarshal w (YMap config') = Inr bytes \<and>
     fs w' (path_Join [directory p, ''config'', ''core.yaml'']) = Some (File bytes) \<and>
     trace w' = trace w @ [EWriteFile (path_Join [directory p, ''config'', ''core.yaml'']) bytes]"
proof -
  let ?cfg = "path_Join [directory p, ''config'', ''core.yaml'']"
  obtain cfgPath where e: "LookupEnv ''FABRIC_CFG_PATH'' w = Some cfgPath"
    using assms by (cases "LookupEnv ''FABRIC_CFG_PATH'' w") (simp_all add: createConfig_def)
  obtain r1 w1 where 1: "ReadFile (path_Join [cfgPath, ''core.yaml'']) w = (r1, w1)"
    by (cases "ReadFile (path_Join [cfgPath, ''core.yaml'']) w")
  obtain configData where r1: "r1 = Inr configData"
    using assms e 1 by (cases r1) (simp_all add: createConfig_def)
  have rd: "fs w (path_Join [cfgPath, ''core.yaml'']) = Some (File configData)"
    and w1: "w1 = w\<lparr>io_faults := snd (popFault (io_faults w))\<rparr>"
    using 1 unfolding r1 ReadFile_ok by simp_all
  obtain config where um: "yamlUnmarshal w1 configData = Inr config"
    using assms e 1 r1 by (cases "yamlUnmarshal w1 configData") (simp_all add: createConfig_def)
  obtain config' where pc: "patchConfig p dd md (homeDirectory w1) config = Inr config'"
    using assms e 1 r1 um
    by (cases "patchConfig p dd md (homeDirectory w1) config") (simp_all add: createConfig_def)
  obtain bytes where mb: "yamlMarshal w1 (YMap config') = Inr bytes"
    using assms e 1 r1 um pc
    by (cases "yamlMarshal w1 (YMap config')") (simp_all add: createConfig_def)
  have wf: "WriteFile ?cfg bytes w1 = (None, w')"
    using assms e 1 r1 um pc mb by (simp add: createConfig_def)
  have f: "fs w' ?cfg = Some (File bytes)" and t: "trace w' = trace w @ [EWriteFile ?cfg bytes]"
    using wf unfolding WriteFile_ok by (simp_all add: w1)
  have um': "yamlUnmarshal w configData = Inr config" using um by (simp add: w1)
  have pc': "patchConfig p dd md (homeDirectory w) config = Inr config'" using pc by (simp add: w1)
  have mb': "yamlMarshal w (YMap config') = Inr bytes" using mb by (simp add: w1)
  show ?thesis
    by (intro exI [of _ cfgPath] exI [of _ configData] exI [of _ config] exI [of _ config']
        exI [of _ bytes] conjI) (rule e rd um' pc' mb' f t)+
qed

lemma createConfig_clean:
  assumes io: "set (io_faults w) \<subseteq> {None}"
    and env: "LookupEnv ''FABRIC_CFG_PATH'' w = Some cfgPath"
    and tpl: "fs w (path_Join [cfgPath, ''core.yaml'']) = Some (File data)"
    and um: "yamlUnmarshal w data = Inr config"
    and ms: "missingSections config = []"
    and home: "homeDirectory w = Inr homeDir"
    and mar: "\<forall>y. \<exists>bytes. yamlMarshal w y = Inr bytes"
  shows "\<exists>w'. createConfig p dd md w = (None, w')"
proof -
  define w1 where "w1 = w\<lparr>io_faults := tl (io_faults w)\<rparr>"
  have r: "ReadFile (path_Join [cfgPath, ''core.yaml'']) w = (Inr data, w1)"
    using tpl by (simp add: ReadFile_def popFault_clean [OF io] w1_def)
  have io1: "set (io_faults w1) \<subseteq> {None}" using set_tl_clean [OF io] by (simp add: w1_def)
  have um1: "yamlUnmarshal w1 data = Inr config" using um by (simp add: w1_def)
  obtain config' where pc: "patchConfig p dd md (homeDirectory w1) config = Inr config'"
    using patchConfig_present [OF ms, of p dd md "homeDirectory w1"] home
    by (auto simp: w1_def)
  obtain bytes where mb: "yamlMarshal w1 (YMap config') = Inr bytes"
    using mar by (auto simp: w1_def)
  obtain w' where
    "WriteFile (path_Join [directory p, ''config'', ''core.yaml'']) bytes w1 = (None, w')"
    using WriteFile_clean [OF io1] by blast
  then have "createConfig p dd md w = (None, w')"
    using env r um1 pc mb by (simp add: createConfig_def)
  then show ?thesis by (rule exI)
qed

text \<open>
  C5. Whenever the patching of \<open>createConfig\<close> produces a document, its chaincode section
  holds under \<open>externalBuilders\<close> a list of exactly four entries, named golang, java, node
  and external-service-builder in this order, whose \<open>propagateEnvironment\<close> lists are, as
  sets, the four fixed allow-lists. A document is produced for every template that has all
  the required sections, provided the home directory is known. And a \<open>createConfig\<close> that
  returns nil has read the template named by \<open>FABRIC_CFG_PATH\<close>, decoded it, patched it in
  this way, and written the encoding of that patched document, and nothing else, to the
  peer's \<open>config/core.yaml\<close>.
\<close>

theorem externalBuilders_allow_lists:
  "(patchConfig p dd md home config = Inr config' \<longrightarrow>
      buildersOf config' = Some fixedAllowLists) \<and>
   (missingSections config = [] \<and> home = Inr homeDir \<longrightarrow>
      (\<exists>config''. patchConfig p dd md home config = Inr config'')) \<and>
   (createConfig p dd md w = (None, w') \<longrightarrow>
      (\<exists>cfgPath configData template patched bytes.
         LookupEnv ''FABRIC_CFG_PATH'' w = Some cfgPath \<and>
         fs w (path_Join [cfgPath, ''core.yaml'']) = Some (File configData) \<and>
         yamlUnmarshal w configData = Inr template \<and>
         patchConfig p dd md (homeDirectory w) template = Inr patched \<and>
         buildersOf patched = Some fixedAllowLists \<and>
         yamlMarshal w (YMap patched) = Inr bytes \<and>
         fs w' (path_Join [directory p, ''config'', ''core.yaml'']) = Some (File bytes) \<and>
         trace w' =
           trace w @ [EWriteFile (path_Join [directory p, ''config'', ''core.yaml'']) bytes]))"
proof -
  have builders: "buildersOf c = Some fixedAllowLists"
    if pc: "patchConfig p dd md h t = Inr c" for h t c
  proof -
    obtain hd cc where
      c: "asMap (mapIndex c ''chaincode'') =
            Some (mapAssign ''externalBuilders'' (externalBuilders hd) cc)"
      using patchConfig_ok [OF pc] by blast
    obtain bs where bs: "externalBuilders hd = YSeq bs" by (simp add: externalBuilders_def)
    have "mapIndex (mapAssign ''externalBuilders'' (externalBuilders hd) cc) ''externalBuilders'' =
        Some (YSeq bs)"
      by (simp add: mapIndex_mapAssign bs)
    then show ?thesis using c builders_fixed [OF bs] by (simp add: buildersOf_def)
  qed
  have A: "patchConfig p dd md home config = Inr config' \<longrightarrow>
      buildersOf config' = Some fixedAllowLists"
    using builders by (rule impI)
  have B: "missingSections config = [] \<and> home = Inr homeDir \<longrightarrow>
      (\<exists>config''. patchConfig p dd md home config = Inr config'')"
  proof
    assume a: "missingSections config = [] \<and> home = Inr homeDir"
    then obtain chaincode rest where "patchConfig p dd md home config =
       (case home of Inl err \<Rightarrow> Inl err
        | Inr homeDir \<Rightarrow> Inr (mapAssign ''chaincode''
             (YMap (mapAssign ''externalBuilders'' (externalBuilders homeDir) chaincode)) rest))"
      using patchConfig_present [of config p dd md home] by blast
    then show "\<exists>config''. patchConfig p dd md home config = Inr config''"
      using a by simp
  qed
  have C: "createConfig p dd md w = (None, w') \<longrightarrow>
      (\<exists>cfgPath configData template patched bytes.
         LookupEnv ''FABRIC_CFG_PATH'' w = Some cfgPath \<and>
         fs w (path_Join [cfgPath, ''core.yaml'']) = Some (File configData) \<and>
         yamlUnmarshal w configData = Inr template \<and>
         patchConfig p dd md (homeDirectory w) template = Inr patched \<and>
         buildersOf patched = Some fixedAllowLists \<and>
         yamlMarshal w (YMap patched) = Inr bytes \<and>
         fs w' (path_Join [directory p, ''config'', ''core.yaml'']) = Some (File bytes) \<and>
         trace w' =
           trace w @ [EWriteFile (path_Join [directory p, ''config'', ''core.yaml'']) bytes])"
  proof
    assume "createConfig p dd md w = (None, w')"
    from createConfig_result [OF this] obtain cfgPath configData template patched bytes where
      1: "LookupEnv ''FABRIC_CFG_PATH'' w = Some cfgPath" and
      2: "fs w (path_Join [cfgPath, ''core.yaml'']) = Some (File configData)" and
      3: "yamlUnmarshal w configData = Inr template" and
      4: "patchConfig p dd md (homeDirectory w) template = Inr patched" and
      5: "yamlMarshal w (YMap patched) = Inr bytes" and
      6: "fs w' (path_Join [directory p, ''config'', ''core.yaml'']) = Some (File bytes)" and
      7: "trace w' =
           trace w @ [EWriteFile (path_Join [directory p, ''config'', ''core.yaml'']) bytes]"
      by (elim exE conjE)
    note 8 = builders [OF 4]
    show "\<exists>cfgPath configData template patched bytes.
         LookupEnv ''FABRIC_CFG_PATH'' w = Some cfgPath \<and>
         fs w (path_Join [cfgPath, ''core.yaml'']) = Some (File configData) \<and>
         yamlUnmarshal w configData = Inr template \<and>
         patchConfig p dd md (homeDirectory w) template = Inr patched \<and>
         buildersOf patched = Some fixedAllowLists \<and>
         yamlMarshal w (YMap patched) = Inr bytes \<and>
         fs w' (path_Join [directory p, ''config'', ''core.yaml'']) = Some (File bytes) \<and>
         trace w' =
           trace w @ [EWriteFile (path_Join [directory p, ''config'', ''core.yaml'']) bytes]"
      by (intro exI [of _ cfgPath] exI [of _ configData] exI [of _ template]
          exI [of _ patched] exI [of _ bytes] conjI) (rule 1 2 3 4 8 5 6 7)+
  qed
  from A B C show ?thesis by (intro conjI)
qed


theorem externalBuilders_allow_lists_witness:
  "missingSections exampleTemplate = [] \<and>
   (\<exists>config'. patchConfig examplePeer ''/tmp/org1peer/data'' ''/tmp/org1peer/msp''
        (Inr ''/home/fab'') exampleTemplate = Inr config' \<and>
      buildersOf config' = Some fixedAllowLists) \<and>
   (\<exists>w' patched.
      createConfig examplePeer ''/tmp/org1peer/data'' ''/tmp/org1peer/msp'' exampleWorld =
        (None, w') \<and>
      patchConfig examplePeer ''/tmp/org1peer/data'' ''/tmp/org1peer/msp''
        (Inr ''/home/fab'') exampleTemplate = Inr patched \<and>
      buildersOf patched = Some fixedAllowLists \<and>
      fs w' ''/tmp/org1peer/config/core.yaml'' = Some (File ''patched''))"
proof -
  let ?dd = "''/tmp/org1peer/data''" and ?md = "''/tmp/org1peer/msp''"
  have m: "missingSections exampleTemplate = []"
    by (simp add: missingSections_def hasSection_def exampleTemplate_def mapIndex_def asMap_def)
  have h: "missingSections exampleTemplate = [] \<and>
      (Inr ''/home/fab'' :: error + string) = Inr ''/home/fab''"
    using m by simp
  have "\<exists>config'. patchConfig examplePeer ?dd ?md (Inr ''/home/fab'') exampleTemplate = Inr config'"
    by (rule externalBuilders_allow_lists [of examplePeer ?dd ?md
        "Inr ''/home/fab''" exampleTemplate undefined "''/home/fab''" undefined undefined,
        THEN conjunct2, THEN conjunct1, THEN mp, OF h])
  then obtain config' where
    c: "patchConfig examplePeer ?dd ?md (Inr ''/home/fab'') exampleTemplate = Inr config'"
    ..
  have b: "buildersOf config' = Some fixedAllowLists"
    by (rule externalBuilders_allow_lists [of examplePeer ?dd ?md
        "Inr ''/home/fab''" exampleTemplate config' "''/home/fab''" undefined undefined,
        THEN conjunct1, THEN mp, OF c])
  from c b have first: "\<exists>config'.
      patchConfig examplePeer ?dd ?md (Inr ''/home/fab'') exampleTemplate = Inr config' \<and>
      buildersOf config' = Some fixedAllowLists"
    by (intro exI [of _ config'] conjI)
  have "\<exists>w'. createConfig examplePeer ?dd ?md exampleWorld = (None, w')"
    by (rule createConfig_clean [where cfgPath = "''/cfg''" and data = "''template''"
          and config = exampleTemplate and homeDir = "''/home/fab''"])
      (simp_all add: exampleWorld_def worldWith_def LookupEnv_def path_Join_def m)
  then obtain w' where cc: "createConfig examplePeer ?dd ?md exampleWorld = (None, w')" ..
  obtain cfgPath configData template patched bytes where
    3: "yamlUnmarshal exampleWorld configData = Inr template" and
    4: "patchConfig examplePeer ?dd ?md (homeDirectory exampleWorld) template = Inr patched" and
    5: "buildersOf patched = Some fixedAllowLists" and
    6: "yamlMarshal exampleWorld (YMap patched) = Inr bytes" and
    7: "fs w' (path_Join [directory examplePeer, ''config'', ''core.yaml'']) = Some (File bytes)"
    using externalBuilders_allow_lists [of examplePeer ?dd ?md
        "Inr ''/home/fab''" exampleTemplate config' "''/home/fab''" exampleWorld w',
        THEN conjunct2, THEN conjunct2, THEN mp, OF cc]
    by (elim exE conjE)
  have t: "template = exampleTemplate" using 3 by (simp add: exampleWorld_def worldWith_def)
  have by': "bytes = ''patched''" using 6 by (simp add: exampleWorld_def worldWith_def)
  have hm: "homeDirectory exampleWorld = Inr ''/home/fab''"
    by (simp add: exampleWorld_def worldWith_def)
  have p4: "patchConfig examplePeer ?dd ?md (Inr ''/home/fab'') exampleTemplate = Inr patched"
    using 4 unfolding t hm .
  have f: "fs w' ''/tmp/org1peer/config/core.yaml'' = Some (File ''patched'')"
    using 7 unfolding by' by (simp add: examplePeer_def peerAt_def path_Join_def)
  have second: "\<exists>w' patched.
      createConfig examplePeer ?dd ?md exampleWorld = (None, w') \<and>
      patchConfig examplePeer ?dd ?md (Inr ''/home/fab'') exampleTemplate = Inr patched \<and>
      buildersOf patched = Some fixedAllowLists \<and>
      fs w' ''/tmp/org1peer/config/core.yaml'' = Some (File ''patched'')"
    by (intro exI [of _ w'] exI [of _ patched] conjI) (rule cc p4 5 f)+
  from m first second show ?thesis by (intro conjI)
qed


end
